theory Spec2Isabelle
  imports Complex_Main
begin

section \<open>Samsara / SFMTA integration: the synchronisation engine of application.py\<close>

text \<open>
  The development embeds the functions of \<^verbatim>\<open>application.py\<close> that fetch vehicle
  positions, resolve the nearest allowed stop, build and push one telemetry record per
  vehicle and throttle the error emails.

  Conventions of the embedding:
  \<^item> the module's global variables are the fields of the record \<open>globals\<close>, passed in
    and returned updated;
  \<^item> everything the program reads from outside (HTTP responses, the S3 object, the
    environment variables, the clock, the SMTP server) is an explicit argument;
  \<^item> a raised exception is the \<open>Inl\<close> branch of a sum, a returned value the \<open>Inr\<close>
    branch;
  \<^item> numbers are real numbers; latitudes and longitudes are a number or \<open>None\<close>. The
    one place where the rounding of the machine's doubles decides what the program does,
    the haversine term of \<open>distance\<close> whose square roots may raise, is a parameter
    (\<open>float_haversine\<close>);
  \<^item> the threads of the pool are run by \<open>run_workers\<close> one after the other; the block
    of \<open>push_vehicle_data\<close> that reads and writes \<open>LAST_ERROR_EMAIL_TIME\<close> is also
    given step by step (\<open>run_schedule\<close>), for the schedules in which threads overlap.
\<close>

subsection \<open>Config variables\<close>

definition DISTANCE_THRESHOLD :: real where
  "DISTANCE_THRESHOLD = 50"

definition MAX_RETRIES :: nat where
  "MAX_RETRIES = 10"

definition ERROR_EMAIL_DELAY :: real where
  "ERROR_EMAIL_DELAY = 7200"

subsection \<open>Python values and exceptions\<close>

datatype pyval = PNone | PInt int | PFloat real | PStr string

datatype py_exception =
    KeyError string
  | ValueError string
  | IOError string

text \<open>
  \<open>str(e)\<close>: the message carried by the exception; for a KeyError the \<open>repr\<close> of the
  key, which for the plain string keys of the lookups whose exception is turned into
  text is the key between single quotes.
\<close>

fun str_exc :: "py_exception \<Rightarrow> string" where
  "str_exc (KeyError k) = [CHR 0x27] @ k @ [CHR 0x27]"
| "str_exc (ValueError m) = m"
| "str_exc (IOError m) = m"

text \<open>A coordinate read from JSON: a number, or \<open>None\<close> for null.\<close>

fun coord_val :: "real option \<Rightarrow> pyval" where
  "coord_val None = PNone"
| "coord_val (Some x) = PFloat x"

subsection \<open>Library functions and machine arithmetic\<close>

text \<open>
  What the interpreter and its libraries compute is a parameter of the model:
  \<open>int()\<close> applied to a string (\<open>None\<close> when it raises ValueError), the local time
  formatted by \<open>time.strftime\<close>, the JSON encoding of a scalar value, the order in
  which a set is iterated, and \<open>float_haversine\<close>, the double that the lines
  \<^verbatim>\<open>dlat = ...\<close>, \<^verbatim>\<open>dlon = ...\<close>, \<^verbatim>\<open>a = ...\<close> of \<open>distance\<close> compute from two
  latitudes and longitudes. In exact arithmetic that term is \<open>haversine_a\<close> below and
  lies between 0 and 1; rounded, it can leave that interval.
\<close>

record library =
  int_of_str :: "string \<Rightarrow> int option"
  strftime_localtime :: "real \<Rightarrow> string"
  json_scalar :: "pyval \<Rightarrow> string"
  set_iteration :: "string set \<Rightarrow> string list"
  float_haversine :: "real \<Rightarrow> real \<Rightarrow> real \<Rightarrow> real \<Rightarrow> real"

subsection \<open>distance: great circle distance between two lat/longs\<close>

definition radians :: "real \<Rightarrow> real" where
  "radians x = x * pi / 180"

text \<open>\<open>math.sqrt\<close> raises ValueError on a negative argument.\<close>

definition py_sqrt :: "real \<Rightarrow> py_exception + real" where
  "py_sqrt x = (if x < 0 then Inl (ValueError ''math domain error'') else Inr (sqrt x))"

text \<open>\<open>math.atan2 y x\<close>: the angle of the point \<open>(x, y)\<close>, in \<open>(-pi, pi]\<close>.\<close>

definition atan2 :: "real \<Rightarrow> real \<Rightarrow> real" where
  "atan2 y x =
     (if 0 < x then arctan (y / x)
      else if x < 0 then (if 0 \<le> y then arctan (y / x) + pi else arctan (y / x) - pi)
      else if 0 < y then pi / 2
      else if y < 0 then - (pi / 2)
      else 0)"

definition radius :: real where
  "radius = 6371 * 1000"

text \<open>The haversine term \<open>a\<close> of \<open>distance\<close>.\<close>

definition haversine_a :: "real \<Rightarrow> real \<Rightarrow> real \<Rightarrow> real \<Rightarrow> real" where
  "haversine_a lat1 lon1 lat2 lon2 =
     (let dlat = radians (lat2 - lat1);
          dlon = radians (lon2 - lon1)
      in sin (dlat / 2) * sin (dlat / 2)
         + cos (radians lat1) * cos (radians lat2) * sin (dlon / 2) * sin (dlon / 2))"

text \<open>\<open>distance\<close> with its haversine term in exact arithmetic.\<close>

definition distance ::
  "real option \<Rightarrow> real option \<Rightarrow> real option \<Rightarrow> real option \<Rightarrow> py_exception + real" where
  "distance origin_lat origin_long dest_lat dest_long =
     (case (origin_lat, origin_long, dest_lat, dest_long) of
        (Some lat1, Some lon1, Some lat2, Some lon2) \<Rightarrow>
          (let a = haversine_a lat1 lon1 lat2 lon2 in
           case py_sqrt a of
             Inl e \<Rightarrow> Inl e
           | Inr sa \<Rightarrow>
               (case py_sqrt (1 - a) of
                  Inl e \<Rightarrow> Inl e
                | Inr sb \<Rightarrow> Inr (radius * (2 * atan2 sa sb))))
      | _ \<Rightarrow> Inr 99999)"

text \<open>
  \<open>distance\<close> as it runs: the haversine term is the double the machine computes, and
  \<open>math.sqrt\<close> raises when that double is below 0 or above 1.
\<close>

definition distance_float ::
  "library \<Rightarrow> real option \<Rightarrow> real option \<Rightarrow> real option \<Rightarrow> real option
     \<Rightarrow> py_exception + real" where
  "distance_float lib origin_lat origin_long dest_lat dest_long =
     (case (origin_lat, origin_long, dest_lat, dest_long) of
        (Some lat1, Some lon1, Some lat2, Some lon2) \<Rightarrow>
          (let a = float_haversine lib lat1 lon1 lat2 lon2 in
           case py_sqrt a of
             Inl e \<Rightarrow> Inl e
           | Inr sa \<Rightarrow>
               (case py_sqrt (1 - a) of
                  Inl e \<Rightarrow> Inl e
                | Inr sb \<Rightarrow> Inr (radius * (2 * atan2 sa sb))))
      | _ \<Rightarrow> Inr 99999)"

subsection \<open>find_stop_id: the allowed stop nearest to a location\<close>

record stop =
  StopId :: int
  StopLocationLatitude :: "real option"
  StopLocationLongitude :: "real option"

text \<open>
  What reading \<^verbatim>\<open>allowed_stops.json\<close> from S3 gives: an exception (the object cannot
  be fetched, is not JSON, or lacks one of the keys read), or the list under
  \<^verbatim>\<open>['Stops']['Stop']\<close> in document order.
\<close>

datatype s3_object = LoadFails py_exception | Stops "stop list"

text \<open>
  The loop over the stops; the accumulator is \<open>(closest_stop_id, min_distance)\<close>. An
  exception of \<open>distance\<close> ends the loop and reaches the \<^verbatim>\<open>except\<close> of
  \<open>find_stop_id\<close>.
\<close>

fun scan_stops ::
  "library \<Rightarrow> stop list \<Rightarrow> real option \<Rightarrow> real option \<Rightarrow> int \<times> real
     \<Rightarrow> py_exception + int \<times> real" where
  "scan_stops lib [] stop_lat stop_long acc = Inr acc"
| "scan_stops lib (s # ss) stop_lat stop_long (closest_stop_id, min_distance) =
     (case distance_float lib (StopLocationLatitude s) (StopLocationLongitude s)
             stop_lat stop_long of
        Inl e \<Rightarrow> Inl e
      | Inr curr_distance \<Rightarrow>
          scan_stops lib ss stop_lat stop_long
            (if curr_distance < min_distance then (StopId s, curr_distance)
             else (closest_stop_id, min_distance)))"

definition find_stop_id ::
  "library \<Rightarrow> s3_object \<Rightarrow> real option \<Rightarrow> real option \<Rightarrow> pyval" where
  "find_stop_id lib allowed_stops stop_lat stop_long =
     (case (case allowed_stops of
              LoadFails e \<Rightarrow> Inl e
            | Stops stops \<Rightarrow> scan_stops lib stops stop_lat stop_long (9999, 99999)) of
        Inl e \<Rightarrow> PStr (''Error loading data from S3 bucket'' @ [CHR 0x0A] @ str_exc e)
      | Inr (closest_stop_id, min_distance) \<Rightarrow>
          (if min_distance \<le> DISTANCE_THRESHOLD then PInt closest_stop_id else PInt 9999))"

text \<open>
  For a stop and a location: whether \<open>distance\<close> raises, and the distance it returns
  when it does not.
\<close>

definition stop_raises :: "library \<Rightarrow> stop \<Rightarrow> real option \<Rightarrow> real option \<Rightarrow> bool" where
  "stop_raises lib s stop_lat stop_long =
     isl (distance_float lib (StopLocationLatitude s) (StopLocationLongitude s)
            stop_lat stop_long)"

definition stop_distance :: "library \<Rightarrow> stop \<Rightarrow> real option \<Rightarrow> real option \<Rightarrow> real" where
  "stop_distance lib s stop_lat stop_long =
     projr (distance_float lib (StopLocationLatitude s) (StopLocationLongitude s)
              stop_lat stop_long)"

subsection \<open>The environment\<close>

text \<open>The environment variables read after start-up; \<open>None\<close> is an unset variable.\<close>

record environ =
  SAMSARA_SFMTA_GROUP_ID :: "string option"
  SFMTA_TECH_PROVIDER_ID :: "string option"
  SFMTA_SHUTTLE_COMPANY_ID :: "string option"

definition bind_exc ::
  "py_exception + 'a \<Rightarrow> ('a \<Rightarrow> py_exception + 'b) \<Rightarrow> py_exception + 'b" where
  "bind_exc m f = (case m of Inl e \<Rightarrow> Inl e | Inr x \<Rightarrow> f x)"

text \<open>\<open>os.environ[name]\<close> and \<open>int(os.environ[name])\<close>.\<close>

definition environ_get :: "string \<Rightarrow> string option \<Rightarrow> py_exception + string" where
  "environ_get name var = (case var of None \<Rightarrow> Inl (KeyError name) | Some s \<Rightarrow> Inr s)"

definition environ_int :: "library \<Rightarrow> string \<Rightarrow> string option \<Rightarrow> py_exception + int" where
  "environ_int lib name var =
     bind_exc (environ_get name var)
       (\<lambda>s. case int_of_str lib s of None \<Rightarrow> Inl (ValueError s) | Some n \<Rightarrow> Inr n)"

text \<open>\<open>d[k]\<close> on a dict: KeyError when the key is absent.\<close>

definition dict_get :: "(string \<rightharpoonup> 'a) \<Rightarrow> string \<Rightarrow> py_exception + 'a" where
  "dict_get d k = (case d k of None \<Rightarrow> Inl (KeyError k) | Some v \<Rightarrow> Inr v)"

subsection \<open>Global variables\<close>

text \<open>\<open>vehicle_timestamp_ms\<close> is never read or written and is left out.\<close>

record globals =
  vehicle_ids :: "string set"
  placards :: "string \<rightharpoonup> string"
  license_plates :: "string \<rightharpoonup> string"
  vehicle_names :: "string \<rightharpoonup> string"
  vehicle_lat :: "string \<rightharpoonup> real option"
  vehicle_long :: "string \<rightharpoonup> real option"
  vehicle_onTrip :: "string \<rightharpoonup> bool"
  LAST_ERROR_EMAIL_TIME :: real

definition initial_globals :: globals where
  "initial_globals =
     \<lparr>vehicle_ids = {}, placards = Map.empty, license_plates = Map.empty,
      vehicle_names = Map.empty, vehicle_lat = Map.empty, vehicle_long = Map.empty,
      vehicle_onTrip = Map.empty, LAST_ERROR_EMAIL_TIME = 0\<rparr>"

subsection \<open>get_vehicle_details: the roster from the Google Sheet\<close>

text \<open>
  A row of the feed; a field is \<open>None\<close> when \<^verbatim>\<open>entry[name]['$t']\<close> raises KeyError.
\<close>

record sheet_entry =
  gsx_samsaradeviceid :: "string option"
  gsx_vehicleplacardnumber :: "string option"
  gsx_licenseplatenumber :: "string option"
  gsx_vehicleidname :: "string option"

text \<open>
  What the sheet answers: \<open>urlopen\<close> raises; or a status code with a body, where
  reading and parsing the body raises, or gives a document whose
  \<^verbatim>\<open>['feed']['entry']\<close> is absent (\<open>None\<close>) or a list of rows.
\<close>

datatype sheet_body = ReadFails py_exception | Json "sheet_entry list option"

datatype sheet_response = UrlopenFails py_exception | Response int sheet_body

text \<open>
  The loop over the rows. It returns the exception that stopped it, if any, and the
  globals as they are at that moment.
\<close>

fun add_entries :: "sheet_entry list \<Rightarrow> globals \<Rightarrow> py_exception option \<times> globals" where
  "add_entries [] g = (None, g)"
| "add_entries (entry # entries) g =
     (case gsx_samsaradeviceid entry of
        None \<Rightarrow> (Some (KeyError ''gsx$samsaradeviceid''), g)
      | Some vehicle_id \<Rightarrow>
          (let g1 = g\<lparr>vehicle_ids := insert vehicle_id (vehicle_ids g)\<rparr> in
           case gsx_vehicleplacardnumber entry of
             None \<Rightarrow> (Some (KeyError ''gsx$vehicleplacardnumber''), g1)
           | Some placard \<Rightarrow>
               (let g2 = g1\<lparr>placards := (placards g1)(vehicle_id \<mapsto> placard)\<rparr> in
                case gsx_licenseplatenumber entry of
                  None \<Rightarrow> (Some (KeyError ''gsx$licenseplatenumber''), g2)
                | Some plate \<Rightarrow>
                    (let g3 = g2\<lparr>license_plates := (license_plates g2)(vehicle_id \<mapsto> plate)\<rparr> in
                     case gsx_vehicleidname entry of
                       None \<Rightarrow> (Some (KeyError ''gsx$vehicleidname''), g3)
                     | Some name \<Rightarrow>
                         add_entries entries
                           (g3\<lparr>vehicle_names := (vehicle_names g3)(vehicle_id \<mapsto> name)\<rparr>)))))"

definition sheet_error :: "py_exception \<Rightarrow> string" where
  "sheet_error e =
     ''Error reading vehicle details from Google Sheet'' @ [CHR 0x0A] @ str_exc e"

definition get_vehicle_details :: "sheet_response \<Rightarrow> globals \<Rightarrow> string \<times> globals" where
  "get_vehicle_details url g =
     (case url of
        UrlopenFails e \<Rightarrow> (sheet_error e, g)
      | Response code body \<Rightarrow>
          if code \<noteq> 200 then (''Success'', g)
          else
            (case body of
               ReadFails e \<Rightarrow> (sheet_error e, g)
             | Json feed \<Rightarrow>
                 (let g0 = g\<lparr>vehicle_ids := {}\<rparr> in
                  case feed of
                    None \<Rightarrow> (sheet_error (KeyError ''entry''), g0)
                  | Some entries \<Rightarrow>
                      (case add_entries entries g0 of
                         (Some e, g') \<Rightarrow> (sheet_error e, g')
                       | (None, g') \<Rightarrow> (''Success'', g')))))"

subsection \<open>send_error_email and the two-hour delay\<close>

text \<open>
  The SMTP exchange either completes, and the mail is out, or raises (an unset
  environment variable, a refused connection or login) and no mail is out.
\<close>

datatype smtp = Delivered | SmtpFails py_exception

definition send_error_email :: "smtp \<Rightarrow> string \<Rightarrow> string \<Rightarrow> py_exception + unit" where
  "send_error_email server email_body email_subject =
     (case server of Delivered \<Rightarrow> Inr () | SmtpFails e \<Rightarrow> Inl e)"

text \<open>
  The block that \<open>get_all_vehicle_data\<close>, \<open>push_vehicle_data\<close> and \<open>push_all_data\<close>
  each carry, with their own body text: if more than \<open>ERROR_EMAIL_DELAY\<close> seconds
  have passed since the last error email, send one and record the time. The result
  tells whether a mail was sent; an exception of \<open>send_error_email\<close> leaves
  \<open>LAST_ERROR_EMAIL_TIME\<close> as it was.
\<close>

definition error_email_if_due ::
  "real \<Rightarrow> smtp \<Rightarrow> string \<Rightarrow> globals \<Rightarrow> (py_exception + bool) \<times> globals" where
  "error_email_if_due current_error_time server email_body g =
     (if current_error_time - LAST_ERROR_EMAIL_TIME g > ERROR_EMAIL_DELAY then
        (case send_error_email server email_body ''Error sending data to SFMTA'' of
           Inl e \<Rightarrow> (Inl e, g)
         | Inr _ \<Rightarrow> (Inr True, g\<lparr>LAST_ERROR_EMAIL_TIME := current_error_time\<rparr>))
      else (Inr False, g))"

text \<open>
  The block is two steps: the test, which reads \<open>LAST_ERROR_EMAIL_TIME\<close>, and, when
  the test passes, \<open>send_error_email\<close> followed by the assignment that writes it
  (lemma \<open>error_email_if_due_steps\<close> below). \<open>send_error_email\<close> is a blocking SMTP
  exchange, during which other threads run.
\<close>

definition email_due :: "real \<Rightarrow> globals \<Rightarrow> bool" where
  "email_due current_error_time g =
     (current_error_time - LAST_ERROR_EMAIL_TIME g > ERROR_EMAIL_DELAY)"

definition send_and_record ::
  "real \<Rightarrow> smtp \<Rightarrow> string \<Rightarrow> globals \<Rightarrow> (py_exception + bool) \<times> globals" where
  "send_and_record current_error_time server email_body g =
     (case send_error_email server email_body ''Error sending data to SFMTA'' of
        Inl e \<Rightarrow> (Inl e, g)
      | Inr _ \<Rightarrow> (Inr True, g\<lparr>LAST_ERROR_EMAIL_TIME := current_error_time\<rparr>))"

text \<open>
  In \<open>push_vehicle_data\<close> the block runs in the threads of the pool, one thread per
  vehicle. A schedule lists the steps of these threads in the order in which they
  happen: \<open>Tests v t\<close>, the thread of vehicle \<open>v\<close> reads the clock \<open>t\<close> and makes the
  test; \<open>Sends v server\<close>, the thread of \<open>v\<close>, having passed the test, completes
  \<open>send_error_email\<close> and the assignment. \<open>waiting\<close> holds the \<open>current_error_time\<close>
  of the threads that are between the two steps. The result lists the mails that went
  out, each with its vehicle and its \<open>current_error_time\<close>.
\<close>

datatype pool_step = Tests string real | Sends string smtp

fun run_schedule ::
  "pool_step list \<Rightarrow> (string \<rightharpoonup> real) \<Rightarrow> globals \<Rightarrow> (string \<times> real) list \<times> globals" where
  "run_schedule [] waiting g = ([], g)"
| "run_schedule (Tests v t # rest) waiting g =
     run_schedule rest (if email_due t g then waiting(v \<mapsto> t) else waiting) g"
| "run_schedule (Sends v server # rest) waiting g =
     (case waiting v of
        None \<Rightarrow> run_schedule rest waiting g
      | Some t \<Rightarrow>
          (case send_and_record t server
                  (''There was an error pushing data to SFMTA API - please check logs''
                     @ [CHR 0x0A, CHR 0x0A]) g of
             (Inr True, g') \<Rightarrow>
               (let (mails, g'') = run_schedule rest (waiting(v := None)) g'
                in ((v, t) # mails, g''))
           | (_, g') \<Rightarrow> run_schedule rest (waiting(v := None)) g'))"

text \<open>
  The reports of the main thread (\<open>get_all_vehicle_data\<close> and the \<^verbatim>\<open>except\<close> block
  of \<open>push_all_data\<close>) do come one after the other, each block complete before the
  next begins. For a run of such reports, each with the clock reading, the state of the
  mail server at that moment and the body text: the times at which a mail went out.
\<close>

fun failure_reports :: "(real \<times> smtp \<times> string) list \<Rightarrow> globals \<Rightarrow> real list" where
  "failure_reports [] g = []"
| "failure_reports ((t, server, email_body) # rest) g =
     (case error_email_if_due t server email_body g of
        (Inr True, g') \<Rightarrow> t # failure_reports rest g'
      | (_, g') \<Rightarrow> failure_reports rest g')"

subsection \<open>get_all_vehicle_data: positions from the Samsara API\<close>

text \<open>
  A vehicle of the locations response; a field is \<open>None\<close> when the key is absent
  (KeyError), and a present coordinate may itself be null. The id is the string
  \<^verbatim>\<open>str(vehicle['id']).decode("utf-8")\<close>, the on-trip flag a boolean.
\<close>

record vehicle_json =
  vj_id :: "string option"
  vj_latitude :: "real option option"
  vj_longitude :: "real option option"
  vj_onTrip :: "bool option"

text \<open>
  One attempt: the request, \<open>raise_for_status\<close>, the JSON decoding or the
  \<^verbatim>\<open>['vehicles']\<close> lookup raises, or the list of vehicles is there.
\<close>

datatype locations_response = RequestFails py_exception | Locations "vehicle_json list"

text \<open>The loop over the vehicles of one response, stopped by the first exception.\<close>

fun store_locations :: "vehicle_json list \<Rightarrow> globals \<Rightarrow> py_exception option \<times> globals" where
  "store_locations [] g = (None, g)"
| "store_locations (vehicle # vehicles) g =
     (case vj_id vehicle of
        None \<Rightarrow> (Some (KeyError ''id''), g)
      | Some vehicle_id \<Rightarrow>
          (case vj_latitude vehicle of
             None \<Rightarrow> (Some (KeyError ''latitude''), g)
           | Some lat \<Rightarrow>
               (let g1 = g\<lparr>vehicle_lat := (vehicle_lat g)(vehicle_id \<mapsto> lat)\<rparr> in
                case vj_longitude vehicle of
                  None \<Rightarrow> (Some (KeyError ''longitude''), g1)
                | Some long \<Rightarrow>
                    (let g2 = g1\<lparr>vehicle_long := (vehicle_long g1)(vehicle_id \<mapsto> long)\<rparr> in
                     case vj_onTrip vehicle of
                       None \<Rightarrow> (Some (KeyError ''onTrip''), g2)
                     | Some on_trip \<Rightarrow>
                         store_locations vehicles
                           (g2\<lparr>vehicle_onTrip := (vehicle_onTrip g2)(vehicle_id \<mapsto> on_trip)\<rparr>)))))"

text \<open>
  An attempt succeeds when the response is there and every vehicle in it has its four
  keys (lemma \<open>store_locations_ok\<close> below); otherwise the \<^verbatim>\<open>try\<close> block raises.
\<close>

definition vehicle_complete :: "vehicle_json \<Rightarrow> bool" where
  "vehicle_complete vehicle =
     (vj_id vehicle \<noteq> None \<and> vj_latitude vehicle \<noteq> None
      \<and> vj_longitude vehicle \<noteq> None \<and> vj_onTrip vehicle \<noteq> None)"

fun response_ok :: "locations_response \<Rightarrow> bool" where
  "response_ok (RequestFails e) = False"
| "response_ok (Locations vehicles) = list_all vehicle_complete vehicles"

text \<open>
  The retry loop \<^verbatim>\<open>while local_retries > 0\<close>. \<open>api k\<close> is what the \<open>k\<close>-th request
  of this call meets; \<open>k\<close> counts the requests made so far. The result is whether the
  loop returned "Success", the number of requests made, and the globals.
\<close>

fun fetch_loop ::
  "nat \<Rightarrow> nat \<Rightarrow> (nat \<Rightarrow> locations_response) \<Rightarrow> globals \<Rightarrow> bool \<times> nat \<times> globals" where
  "fetch_loop 0 k api g = (False, k, g)"
| "fetch_loop (Suc local_retries) k api g =
     (case api k of
        RequestFails e \<Rightarrow> fetch_loop local_retries (Suc k) api g
      | Locations vehicles \<Rightarrow>
          (case store_locations vehicles g of
             (None, g') \<Rightarrow> (True, Suc k, g')
           | (Some e, g') \<Rightarrow> fetch_loop local_retries (Suc k) api g'))"

text \<open>What a call did: its value or exception, the requests it made, the globals.\<close>

record call_result =
  outcome :: "py_exception + pyval"
  attempts :: nat
  state :: globals

definition get_all_vehicle_data ::
  "library \<Rightarrow> environ \<Rightarrow> sheet_response \<Rightarrow> (nat \<Rightarrow> locations_response) \<Rightarrow> real \<Rightarrow> smtp
     \<Rightarrow> globals \<Rightarrow> call_result" where
  "get_all_vehicle_data lib env sheet api current_error_time server g =
     (let g1 = snd (get_vehicle_details sheet g) in
      case environ_int lib ''SAMSARA_SFMTA_GROUP_ID'' (SAMSARA_SFMTA_GROUP_ID env) of
        Inl e \<Rightarrow> \<lparr>outcome = Inl e, attempts = 0, state = g1\<rparr>
      | Inr group_id \<Rightarrow>
          (case fetch_loop MAX_RETRIES 0 api g1 of
             (True, k, g2) \<Rightarrow> \<lparr>outcome = Inr (PStr ''Success''), attempts = k, state = g2\<rparr>
           | (False, k, g2) \<Rightarrow>
               (case error_email_if_due current_error_time server
                       (''There was an error pulling data from Samsara API - please check logs''
                          @ [CHR 0x0A, CHR 0x0A]) g2 of
                  (Inl e, g3) \<Rightarrow> \<lparr>outcome = Inl e, attempts = k, state = g3\<rparr>
                | (Inr sent, g3) \<Rightarrow>
                    \<lparr>outcome = Inr (PStr ''Failure''), attempts = k, state = g3\<rparr>)))"

subsection \<open>build_sfmta_payload: the telemetry record of one vehicle\<close>

text \<open>
  An \<open>OrderedDict\<close> is the list of its items in insertion order; assigning to a key
  that is there keeps its place, assigning to a new key appends.
\<close>

type_synonym ordered_dict = "(string \<times> pyval) list"

fun od_set :: "ordered_dict \<Rightarrow> string \<Rightarrow> pyval \<Rightarrow> ordered_dict" where
  "od_set [] k v = [(k, v)]"
| "od_set ((k', v') # items) k v =
     (if k' = k then (k, v) # items else (k', v') # od_set items k v)"

definition build_sfmta_payload ::
  "library \<Rightarrow> environ \<Rightarrow> s3_object \<Rightarrow> globals \<Rightarrow> string \<Rightarrow> real
     \<Rightarrow> py_exception + ordered_dict" where
  "build_sfmta_payload lib env allowed_stops g vehicle_id current_time =
     bind_exc (environ_int lib ''SFMTA_TECH_PROVIDER_ID'' (SFMTA_TECH_PROVIDER_ID env))
       (\<lambda>tech. let p1 = od_set [] ''TechProviderId'' (PInt tech) in
     bind_exc (environ_get ''SFMTA_SHUTTLE_COMPANY_ID'' (SFMTA_SHUTTLE_COMPANY_ID env))
       (\<lambda>company. let p2 = od_set p1 ''ShuttleCompanyId'' (PStr company) in
     bind_exc (dict_get (placards g) vehicle_id)
       (\<lambda>placard. let p3 = od_set p2 ''VehiclePlacardNum'' (PStr placard) in
     bind_exc (dict_get (license_plates g) vehicle_id)
       (\<lambda>plate. let p4 = od_set p3 ''LicensePlateNum'' (PStr plate) in
     bind_exc (dict_get (vehicle_onTrip g) vehicle_id)
       (\<lambda>on_trip.
     bind_exc
       (if on_trip = True then Inr (1, PInt 9999)
        else
          bind_exc (dict_get (vehicle_lat g) vehicle_id)
            (\<lambda>lat. bind_exc (dict_get (vehicle_long g) vehicle_id)
               (\<lambda>long. Inr (2, find_stop_id lib allowed_stops lat long))))
       (\<lambda>(vehicle_status, stop_id).
          let p5 = od_set p4 ''StopId'' stop_id;
              p6 = od_set p5 ''VehicleStatus'' (PInt vehicle_status) in
     bind_exc (dict_get (vehicle_lat g) vehicle_id)
       (\<lambda>lat. let p7 = od_set p6 ''LocationLatitude'' (coord_val lat) in
     bind_exc (dict_get (vehicle_long g) vehicle_id)
       (\<lambda>long. let p8 = od_set p7 ''LocationLongitude'' (coord_val long) in
        Inr (od_set p8 ''TimeStampLocal'' (PStr (strftime_localtime lib current_time)))))))))))"

text \<open>
  \<open>json.dumps\<close> of an \<open>OrderedDict\<close> of scalars: the items in the dict's order,
  separated by a comma and a space, each a quoted key, a colon, a space and the value.
\<close>

definition json_item :: "library \<Rightarrow> string \<Rightarrow> pyval \<Rightarrow> string" where
  "json_item lib k v = [CHR 0x22] @ k @ [CHR 0x22] @ '': '' @ json_scalar lib v"

fun json_items :: "library \<Rightarrow> ordered_dict \<Rightarrow> string" where
  "json_items lib [] = []"
| "json_items lib [(k, v)] = json_item lib k v"
| "json_items lib ((k, v) # items) = json_item lib k v @ '', '' @ json_items lib items"

definition json_dumps :: "library \<Rightarrow> ordered_dict \<Rightarrow> string" where
  "json_dumps lib d = ''{'' @ json_items lib d @ ''}''"

subsection \<open>push_vehicle_data: one vehicle's record to the SFMTA API\<close>

text \<open>
  \<open>api k body\<close> is what the \<open>k\<close>-th POST of this call, carrying \<open>body\<close>, meets:
  \<open>None\<close> when the request and \<open>raise_for_status\<close> pass, the exception otherwise.
  After the loop, \<^verbatim>\<open>return "Failure"\<close> stands inside the branch that sends the
  email, so a call that sends no email falls off the end and returns \<open>None\<close>.
\<close>

fun push_loop :: "nat \<Rightarrow> nat \<Rightarrow> (nat \<Rightarrow> string \<Rightarrow> py_exception option) \<Rightarrow> string \<Rightarrow> bool \<times> nat" where
  "push_loop 0 k api body = (False, k)"
| "push_loop (Suc local_retries) k api body =
     (case api k body of
        None \<Rightarrow> (True, Suc k)
      | Some e \<Rightarrow> push_loop local_retries (Suc k) api body)"

definition push_vehicle_data ::
  "library \<Rightarrow> environ \<Rightarrow> s3_object \<Rightarrow> (nat \<Rightarrow> string \<Rightarrow> py_exception option) \<Rightarrow> real \<Rightarrow> smtp
     \<Rightarrow> string \<Rightarrow> real \<Rightarrow> globals \<Rightarrow> call_result" where
  "push_vehicle_data lib env allowed_stops api current_error_time server
       vehicle_id current_time g =
     (case build_sfmta_payload lib env allowed_stops g vehicle_id current_time of
        Inl e \<Rightarrow> \<lparr>outcome = Inl e, attempts = 0, state = g\<rparr>
      | Inr sfmta_payload \<Rightarrow>
          (let sfmta_payload_json = json_dumps lib sfmta_payload in
           case push_loop MAX_RETRIES 0 api sfmta_payload_json of
             (True, k) \<Rightarrow> \<lparr>outcome = Inr (PStr ''Success''), attempts = k, state = g\<rparr>
           | (False, k) \<Rightarrow>
               (case error_email_if_due current_error_time server
                       (''There was an error pushing data to SFMTA API - please check logs''
                          @ [CHR 0x0A, CHR 0x0A]) g of
                  (Inl e, g') \<Rightarrow> \<lparr>outcome = Inl e, attempts = k, state = g'\<rparr>
                | (Inr True, g') \<Rightarrow>
                    \<lparr>outcome = Inr (PStr ''Failure''), attempts = k, state = g'\<rparr>
                | (Inr False, g') \<Rightarrow> \<lparr>outcome = Inr PNone, attempts = k, state = g'\<rparr>)))"

subsection \<open>push_all_vehicle_data: one push per vehicle\<close>

text \<open>
  What the workers meet, per vehicle id: the S3 object, the SFMTA API, the clock and
  the mail server at the moment the retries are used up.
\<close>

record dispatch_input =
  di_allowed_stops :: "string \<Rightarrow> s3_object"
  di_api :: "string \<Rightarrow> nat \<Rightarrow> string \<Rightarrow> py_exception option"
  di_error_time :: "string \<Rightarrow> real"
  di_smtp :: "string \<Rightarrow> smtp"

text \<open>
  \<open>run_workers\<close> is the pool under one schedule: the workers run one after the other
  in the iteration order of \<open>vehicle_ids\<close>, each to its end before the next starts;
  every worker runs, and \<open>pool.map\<close> raises the exception of the first worker that
  raised. The maps a worker reads are written by no worker, so the record it builds, the
  body it posts and the exception it raises are those of every schedule; what depends on
  the schedule is the email block, whose other schedules are those of \<open>run_schedule\<close>.
\<close>

fun run_workers ::
  "library \<Rightarrow> environ \<Rightarrow> dispatch_input \<Rightarrow> real \<Rightarrow> string list \<Rightarrow> globals
     \<Rightarrow> py_exception option \<times> globals" where
  "run_workers lib env w current_time [] g = (None, g)"
| "run_workers lib env w current_time (vehicle_id # rest) g =
     (let r = push_vehicle_data lib env (di_allowed_stops w vehicle_id) (di_api w vehicle_id)
                (di_error_time w vehicle_id) (di_smtp w vehicle_id) vehicle_id current_time g;
          (later, g') = run_workers lib env w current_time rest (state r)
      in ((case outcome r of Inl e \<Rightarrow> Some e | Inr v \<Rightarrow> later), g'))"

text \<open>\<open>ThreadPool(0)\<close> raises ValueError.\<close>

definition push_all_vehicle_data ::
  "library \<Rightarrow> environ \<Rightarrow> dispatch_input \<Rightarrow> real \<Rightarrow> globals \<Rightarrow> py_exception option \<times> globals" where
  "push_all_vehicle_data lib env w current_time g =
     (if vehicle_ids g = {} then
        (Some (ValueError ''Number of processes must be at least 1''), g)
      else run_workers lib env w current_time (set_iteration lib (vehicle_ids g)) g)"

subsection \<open>push_all_data: the main application loop\<close>

text \<open>Everything one pass of the loop reads from outside.\<close>

record cycle_input =
  ci_start_time :: real
  ci_sheet :: sheet_response
  ci_locations :: "nat \<Rightarrow> locations_response"
  ci_fetch_error_time :: real
  ci_fetch_smtp :: smtp
  ci_dispatch :: dispatch_input
  ci_handler_time :: real
  ci_handler_smtp :: smtp

text \<open>
  The body of the \<^verbatim>\<open>try\<close>: the exception it raises, if any, and the globals.
  Sleeping and logging change nothing that is modelled.
\<close>

definition cycle_body ::
  "library \<Rightarrow> environ \<Rightarrow> cycle_input \<Rightarrow> globals \<Rightarrow> py_exception option \<times> globals" where
  "cycle_body lib env c g =
     (let current_time = ci_start_time c;
          r = get_all_vehicle_data lib env (ci_sheet c) (ci_locations c)
                (ci_fetch_error_time c) (ci_fetch_smtp c) g
      in case outcome r of
           Inl e \<Rightarrow> (Some e, state r)
         | Inr v \<Rightarrow>
             if v \<noteq> PStr ''Success'' then (None, state r)
             else push_all_vehicle_data lib env (ci_dispatch c) current_time (state r))"

text \<open>
  The loop either goes on to its next pass, or an exception leaves it and
  \<open>push_all_data\<close> is over.
\<close>

datatype loop_state = Running globals | Terminated py_exception globals

text \<open>
  One pass: the \<^verbatim>\<open>try\<close> body, and on an exception the \<^verbatim>\<open>except\<close> block, whose own
  exception nothing catches.
\<close>

definition cycle :: "library \<Rightarrow> environ \<Rightarrow> cycle_input \<Rightarrow> globals \<Rightarrow> loop_state" where
  "cycle lib env c g =
     (case cycle_body lib env c g of
        (None, g') \<Rightarrow> Running g'
      | (Some e, g') \<Rightarrow>
          (case error_email_if_due (ci_handler_time c) (ci_handler_smtp c)
                  (''There was an error sending data to SFMTA - please check logs''
                     @ [CHR 0x0A, CHR 0x0A]) g' of
             (Inl e', g'') \<Rightarrow> Terminated e' g''
           | (Inr sent, g'') \<Rightarrow> Running g''))"

text \<open>
  \<^verbatim>\<open>while True\<close>, run on the inputs of finitely many passes: \<open>Running\<close> when
  the loop is still going after them.
\<close>

fun push_all_data :: "library \<Rightarrow> environ \<Rightarrow> cycle_input list \<Rightarrow> globals \<Rightarrow> loop_state" where
  "push_all_data lib env [] g = Running g"
| "push_all_data lib env (c # cs) g =
     (case cycle lib env c g of
        Running g' \<Rightarrow> push_all_data lib env cs g'
      | Terminated e g' \<Rightarrow> Terminated e g')"

subsection \<open>A concrete scenario\<close>

text \<open>
  One vehicle \<open>V1\<close> with placard \<open>P1\<close> and plate \<open>ABC123\<close> at latitude 37, longitude
  -122, and one allowed stop, number 7, at the same place. The haversine term of
  \<open>example_library\<close> is the exact one: at equal points it is 0, as in doubles.
\<close>

definition example_library :: library where
  "example_library =
     \<lparr>int_of_str = (\<lambda>s. if s = ''42'' then Some 42 else None),
      strftime_localtime = (\<lambda>t. ''2020-01-01T00:00:00''),
      json_scalar = (\<lambda>v. case v of PNone \<Rightarrow> ''null'' | PInt n \<Rightarrow> ''<int>''
                         | PFloat x \<Rightarrow> ''<float>'' | PStr s \<Rightarrow> [CHR 0x22] @ s @ [CHR 0x22]),
      set_iteration = (\<lambda>S. if ''V1'' \<in> S then [''V1''] else []),
      float_haversine = haversine_a\<rparr>"

definition example_environ :: environ where
  "example_environ =
     \<lparr>SAMSARA_SFMTA_GROUP_ID = Some ''42'', SFMTA_TECH_PROVIDER_ID = Some ''42'',
      SFMTA_SHUTTLE_COMPANY_ID = Some ''ACME''\<rparr>"

definition example_globals :: "bool \<Rightarrow> globals" where
  "example_globals on_trip =
     \<lparr>vehicle_ids = {''V1''},
      placards = [''V1'' \<mapsto> ''P1''],
      license_plates = [''V1'' \<mapsto> ''ABC123''],
      vehicle_names = [''V1'' \<mapsto> ''Shuttle 1''],
      vehicle_lat = [''V1'' \<mapsto> Some 37],
      vehicle_long = [''V1'' \<mapsto> Some (-122)],
      vehicle_onTrip = [''V1'' \<mapsto> on_trip],
      LAST_ERROR_EMAIL_TIME = 0\<rparr>"

definition example_stops :: s3_object where
  "example_stops =
     Stops [\<lparr>StopId = 7, StopLocationLatitude = Some 37, StopLocationLongitude = Some (-122)\<rparr>]"

definition example_dispatch :: dispatch_input where
  "example_dispatch =
     \<lparr>di_allowed_stops = (\<lambda>v. example_stops), di_api = (\<lambda>v k body. None),
      di_error_time = (\<lambda>v. 1500000000), di_smtp = (\<lambda>v. Delivered)\<rparr>"

text \<open>
  A stop at latitude 82, longitude 0, and a location at its antipode, latitude -82,
  longitude -180. For these points IEEE double arithmetic gives the haversine term
  1.0000000000000002, that is \<open>1 + 1 / 2 ^ 52\<close>; \<open>doubles_library\<close> has this value there
  (its other values play no part).
\<close>

definition polar_stop :: stop where
  "polar_stop = \<lparr>StopId = 7, StopLocationLatitude = Some 82, StopLocationLongitude = Some 0\<rparr>"

definition doubles_library :: library where
  "doubles_library =
     example_library
       \<lparr>float_haversine :=
          (\<lambda>lat1 lon1 lat2 lon2.
             if lat1 = 82 \<and> lon1 = 0 \<and> lat2 = - 82 \<and> lon2 = - 180 then 1 + 1 / 2 ^ 52
             else haversine_a lat1 lon1 lat2 lon2)\<rparr>"

subsection \<open>What a feed holds\<close>

text \<open>
  A row is complete when its four fields are there. \<open>feed_ids\<close> is the set of the
  rows' vehicle ids and \<open>feed_column\<close> a metadata column as a map from vehicle id, the
  last row of an id winning; \<open>example_row\<close> is a complete row.
\<close>

definition entry_complete :: "sheet_entry \<Rightarrow> bool" where
  "entry_complete entry =
     (gsx_samsaradeviceid entry \<noteq> None \<and> gsx_vehicleplacardnumber entry \<noteq> None
      \<and> gsx_licenseplatenumber entry \<noteq> None \<and> gsx_vehicleidname entry \<noteq> None)"

definition feed_ids :: "sheet_entry list \<Rightarrow> string set" where
  "feed_ids entries = set (List.map_filter gsx_samsaradeviceid entries)"

definition feed_column ::
  "(sheet_entry \<Rightarrow> string option) \<Rightarrow> sheet_entry list \<Rightarrow> (string \<rightharpoonup> string)" where
  "feed_column field entries =
     map_of (rev (List.map_filter
       (\<lambda>entry. case (gsx_samsaradeviceid entry, field entry) of
                  (Some vehicle_id, Some x) \<Rightarrow> Some (vehicle_id, x)
                | _ \<Rightarrow> None) entries))"

definition example_row :: "string \<Rightarrow> sheet_entry" where
  "example_row vehicle_id =
     \<lparr>gsx_samsaradeviceid = Some vehicle_id, gsx_vehicleplacardnumber = Some ''P2'',
      gsx_licenseplatenumber = Some ''XYZ789'', gsx_vehicleidname = Some ''Shuttle 2''\<rparr>"

subsection \<open>An outage\<close>

text \<open>
  A pass of the loop during which the network is down: the sheet, the Samsara API and
  the mail server cannot be reached.
\<close>

definition example_outage :: cycle_input where
  "example_outage =
     \<lparr>ci_start_time = 1500000000,
      ci_sheet = UrlopenFails (IOError ''network unreachable''),
      ci_locations = (\<lambda>k. RequestFails (IOError ''network unreachable'')),
      ci_fetch_error_time = 1500000001,
      ci_fetch_smtp = SmtpFails (IOError ''smtp unreachable''),
      ci_dispatch = example_dispatch,
      ci_handler_time = 1500000002,
      ci_handler_smtp = SmtpFails (IOError ''smtp unreachable'')\<rparr>"

section \<open>Properties\<close>

subsection \<open>distance\<close>

text \<open>
  In exact arithmetic the haversine term lies between 0 and 1, so neither square root
  of \<open>distance\<close> raises.
\<close>

lemma haversine_a_bounds:
  "0 \<le> haversine_a lat1 lon1 lat2 lon2 \<and> haversine_a lat1 lon1 lat2 lon2 \<le> 1"
proof -
  define p where "p = radians lat1"
  define q where "q = radians lat2"
  define x where "x = radians (lat2 - lat1) / 2"
  define s where "s = sin (radians (lon2 - lon1) / 2) * sin (radians (lon2 - lon1) / 2)"
  define A where "A = sin x * sin x"
  define B where "B = cos p * cos q"
  have xpq: "2 * x = q - p"
    by (simp add: x_def p_def q_def radians_def algebra_simps diff_divide_distrib)
  have s0: "0 \<le> s" by (simp add: s_def)
  have s1: "s \<le> 1"
    using sin_squared_eq [of "radians (lon2 - lon1) / 2"] zero_le_power2 [of "cos (radians (lon2 - lon1) / 2)"]
    by (simp add: s_def power2_eq_square)
  have A0: "0 \<le> A" by (simp add: A_def)
  have A1: "A \<le> 1"
    using sin_squared_eq [of x] zero_le_power2 [of "cos x"]
    by (simp add: A_def power2_eq_square)
  have Aeq: "A = (1 - cos (q - p)) / 2"
    using cos_double_sin [of x] by (simp add: A_def xpq power2_eq_square)
  have Beq: "B = (cos (p - q) + cos (p + q)) / 2"
    by (simp add: B_def cos_times_cos)
  have cpq: "cos (p - q) = cos (q - p)"
    using cos_minus [of "q - p"] by simp
  have AB: "A + B = (1 + cos (p + q)) / 2"
    by (simp add: Aeq Beq cpq field_simps)
  have AB0: "0 \<le> A + B"
  proof -
    have "- 1 \<le> cos (p + q)" by (rule cos_ge_minus_one)
    then have "0 \<le> 1 + cos (p + q)" by linarith
    then show ?thesis by (simp add: AB)
  qed
  have AB1: "A + B \<le> 1"
    using cos_le_one [of "p + q"] by (simp add: AB)
  have a_eq: "haversine_a lat1 lon1 lat2 lon2 = A * (1 - s) + (A + B) * s"
    by (simp add: haversine_a_def Let_def A_def B_def s_def x_def p_def q_def algebra_simps)
  have lo1: "0 \<le> A * (1 - s)" using A0 s1 by simp
  have lo2: "0 \<le> (A + B) * s" by (rule mult_nonneg_nonneg [OF AB0 s0])
  have lo: "0 \<le> A * (1 - s) + (A + B) * s"
    by (rule add_nonneg_nonneg [OF lo1 lo2])
  have "A * (1 - s) \<le> 1 * (1 - s)" using A1 s1 by (intro mult_right_mono) auto
  moreover have "(A + B) * s \<le> 1 * s" using AB1 s0 by (intro mult_right_mono) auto
  ultimately have hi: "A * (1 - s) + (A + B) * s \<le> 1" by simp
  show ?thesis using lo hi by (simp add: a_eq)
qed

lemma distance_returns:
  "\<exists>d. distance a b c d' = Inr d"
proof (cases "\<exists>lat1 lon1 lat2 lon2. a = Some lat1 \<and> b = Some lon1 \<and> c = Some lat2 \<and> d' = Some lon2")
  case True
  then obtain lat1 lon1 lat2 lon2
    where eq: "a = Some lat1" "b = Some lon1" "c = Some lat2" "d' = Some lon2" by blast
  have "\<not> haversine_a lat1 lon1 lat2 lon2 < 0" "\<not> 1 - haversine_a lat1 lon1 lat2 lon2 < 0"
    using haversine_a_bounds [of lat1 lon1 lat2 lon2] by auto
  then show ?thesis by (simp add: eq distance_def py_sqrt_def Let_def)
next
  case False
  then show ?thesis by (auto simp: distance_def split: option.splits)
qed

lemma haversine_a_same: "haversine_a lat lon lat lon = 0"
  by (simp add: haversine_a_def radians_def)

lemma haversine_a_sym: "haversine_a lat1 lon1 lat2 lon2 = haversine_a lat2 lon2 lat1 lon1"
proof -
  have m: "\<And>u v::real. sin (radians (u - v) / 2) * sin (radians (u - v) / 2)
        = sin (radians (v - u) / 2) * sin (radians (v - u) / 2)"
  proof -
    fix u v :: real
    have "radians (u - v) / 2 = - (radians (v - u) / 2)"
      by (simp add: radians_def field_simps)
    then show "sin (radians (u - v) / 2) * sin (radians (u - v) / 2)
        = sin (radians (v - u) / 2) * sin (radians (v - u) / 2)"
      by simp
  qed
  show ?thesis
    using m [of lat2 lat1] m [of lon2 lon1]
    by (simp add: haversine_a_def Let_def mult.assoc mult.left_commute mult.commute)
qed

lemma distance_same: "distance (Some lat) (Some lon) (Some lat) (Some lon) = Inr 0"
  by (simp add: distance_def haversine_a_same py_sqrt_def atan2_def)

lemma distance_sym: "distance a b c d = distance c d a b"
  using haversine_a_sym
  by (cases a; cases b; cases c; cases d) (simp_all add: distance_def)

text \<open>
  Claim C9. For every coordinate with a latitude and a longitude that are not null, the
  distance from the coordinate to itself is 0; and for all coordinates (null or not),
  \<open>distance\<close> gives the same result with origin and destination exchanged.
\<close>

theorem distance_zero_and_symmetric:
  "distance (Some lat) (Some lon) (Some lat) (Some lon) = Inr 0
   \<and> distance lat1 lon1 lat2 lon2 = distance lat2 lon2 lat1 lon1"
  using distance_same distance_sym by blast

theorem distance_zero_and_symmetric_witness:
  "distance (Some 37) (Some (-122)) (Some 37) (Some (-122)) = Inr 0
   \<and> distance None (Some 2) (Some 3) (Some 4) = distance (Some 3) (Some 4) None (Some 2)"
  using distance_zero_and_symmetric [of 37 "-122" None "Some 2" "Some 3" "Some 4"] by simp

subsection \<open>find_stop_id\<close>

text \<open>
  With the exact haversine term \<open>distance\<close> is what runs, and no stop makes it raise.
\<close>

lemma distance_float_exact:
  "float_haversine lib = haversine_a \<Longrightarrow> distance_float lib a b c d = distance a b c d"
  by (cases a; cases b; cases c; cases d) (simp_all add: distance_float_def distance_def)

lemma exact_never_raises:
  "float_haversine lib = haversine_a \<Longrightarrow> \<not> stop_raises lib s lat long"
  using distance_returns [of "StopLocationLatitude s" "StopLocationLongitude s" lat long]
  by (auto simp: stop_raises_def distance_float_exact)

lemma distance_stop:
  "\<not> stop_raises lib s lat long \<Longrightarrow>
   distance_float lib (StopLocationLatitude s) (StopLocationLongitude s) lat long
     = Inr (stop_distance lib s lat long)"
  by (cases "distance_float lib (StopLocationLatitude s) (StopLocationLongitude s) lat long")
     (simp_all add: stop_distance_def stop_raises_def)

lemma scan_stops_unchanged:
  "\<forall>s\<in>set ss. \<not> stop_raises lib s lat long \<and> m \<le> stop_distance lib s lat long \<Longrightarrow>
   scan_stops lib ss lat long (c, m) = Inr (c, m)"
  by (induction ss) (auto simp: distance_stop)

lemma scan_stops_first_min:
  "\<forall>s\<in>set ss. \<not> stop_raises lib s lat long \<Longrightarrow>
   \<exists>s\<in>set ss. stop_distance lib s lat long < m \<Longrightarrow>
   \<exists>pre s post. ss = pre @ s # post
      \<and> scan_stops lib ss lat long (c, m) = Inr (StopId s, stop_distance lib s lat long)
      \<and> stop_distance lib s lat long < m
      \<and> (\<forall>t\<in>set pre. stop_distance lib s lat long < stop_distance lib t lat long)
      \<and> (\<forall>t\<in>set post. stop_distance lib s lat long \<le> stop_distance lib t lat long)"
proof (induction ss arbitrary: c m)
  case Nil
  then show ?case by simp
next
  case (Cons x xs)
  let ?d = "\<lambda>s. stop_distance lib s lat long"
  have okx: "\<not> stop_raises lib x lat long" using Cons.prems(1) by simp
  have ok: "\<forall>s\<in>set xs. \<not> stop_raises lib s lat long" using Cons.prems(1) by simp
  show ?case
  proof (cases "?d x < m")
    case True
    have step: "scan_stops lib (x # xs) lat long (c, m)
        = scan_stops lib xs lat long (StopId x, ?d x)"
      using True by (simp add: distance_stop [OF okx])
    show ?thesis
    proof (cases "\<exists>s\<in>set xs. ?d s < ?d x")
      case False
      then have all: "\<forall>s\<in>set xs. ?d x \<le> ?d s" by (auto simp: not_less)
      have "scan_stops lib xs lat long (StopId x, ?d x) = Inr (StopId x, ?d x)"
        using ok all by (intro scan_stops_unchanged) blast
      then have "x # xs = [] @ x # xs
          \<and> scan_stops lib (x # xs) lat long (c, m) = Inr (StopId x, ?d x)
          \<and> ?d x < m \<and> (\<forall>t\<in>set []. ?d x < ?d t) \<and> (\<forall>t\<in>set xs. ?d x \<le> ?d t)"
        using step True all by simp
      then show ?thesis by blast
    next
      case ex: True
      from Cons.IH [OF ok ex, of "StopId x"] obtain pre s post where
        p: "xs = pre @ s # post"
           "scan_stops lib xs lat long (StopId x, ?d x) = Inr (StopId s, ?d s)"
           "?d s < ?d x" "\<forall>t\<in>set pre. ?d s < ?d t" "\<forall>t\<in>set post. ?d s \<le> ?d t"
        by blast
      have "x # xs = (x # pre) @ s # post
          \<and> scan_stops lib (x # xs) lat long (c, m) = Inr (StopId s, ?d s)
          \<and> ?d s < m \<and> (\<forall>t\<in>set (x # pre). ?d s < ?d t) \<and> (\<forall>t\<in>set post. ?d s \<le> ?d t)"
        using p step True by auto
      then show ?thesis by blast
    qed
  next
    case False
    have step: "scan_stops lib (x # xs) lat long (c, m) = scan_stops lib xs lat long (c, m)"
      using False by (simp add: distance_stop [OF okx])
    have ex: "\<exists>s\<in>set xs. ?d s < m" using Cons.prems(2) False by auto
    from Cons.IH [OF ok ex, of c] obtain pre s post where
      p: "xs = pre @ s # post"
         "scan_stops lib xs lat long (c, m) = Inr (StopId s, ?d s)"
         "?d s < m" "\<forall>t\<in>set pre. ?d s < ?d t" "\<forall>t\<in>set post. ?d s \<le> ?d t"
      by blast
    have "x # xs = (x # pre) @ s # post
        \<and> scan_stops lib (x # xs) lat long (c, m) = Inr (StopId s, ?d s)
        \<and> ?d s < m \<and> (\<forall>t\<in>set (x # pre). ?d s < ?d t) \<and> (\<forall>t\<in>set post. ?d s \<le> ?d t)"
      using p step False by auto
    then show ?thesis by blast
  qed
qed

lemma find_stop_id_far:
  assumes ok: "\<forall>s\<in>set stops. \<not> stop_raises lib s lat long"
    and far: "\<forall>s\<in>set stops. DISTANCE_THRESHOLD < stop_distance lib s lat long"
  shows "find_stop_id lib (Stops stops) lat long = PInt 9999"
proof (cases "\<exists>s\<in>set stops. stop_distance lib s lat long < 99999")
  case True
  from scan_stops_first_min [OF ok True, of 9999] obtain pre s post where
    p: "stops = pre @ s # post"
       "scan_stops lib stops lat long (9999, 99999)
          = Inr (StopId s, stop_distance lib s lat long)"
    by blast
  have "s \<in> set stops" using p(1) by simp
  then have "DISTANCE_THRESHOLD < stop_distance lib s lat long" using far by blast
  then show ?thesis by (simp add: find_stop_id_def p(2))
next
  case False
  then have "\<forall>s\<in>set stops. \<not> stop_raises lib s lat long
      \<and> 99999 \<le> stop_distance lib s lat long"
    using ok by (auto simp: not_less)
  then have "scan_stops lib stops lat long (9999, 99999) = Inr (9999, 99999)"
    by (rule scan_stops_unchanged)
  then show ?thesis by (simp add: find_stop_id_def DISTANCE_THRESHOLD_def)
qed

lemma find_stop_id_near:
  assumes ok: "\<forall>s\<in>set stops. \<not> stop_raises lib s lat long"
    and near: "\<exists>s\<in>set stops. stop_distance lib s lat long \<le> DISTANCE_THRESHOLD"
  shows "\<exists>pre s post. stops = pre @ s # post
      \<and> find_stop_id lib (Stops stops) lat long = PInt (StopId s)
      \<and> stop_distance lib s lat long \<le> DISTANCE_THRESHOLD
      \<and> (\<forall>t\<in>set pre. stop_distance lib s lat long < stop_distance lib t lat long)
      \<and> (\<forall>t\<in>set post. stop_distance lib s lat long \<le> stop_distance lib t lat long)"
proof -
  from near obtain u where
    u: "u \<in> set stops" "stop_distance lib u lat long \<le> DISTANCE_THRESHOLD"
    by blast
  then have "stop_distance lib u lat long < 99999" by (simp add: DISTANCE_THRESHOLD_def)
  with u(1) have ex: "\<exists>s\<in>set stops. stop_distance lib s lat long < 99999" by blast
  from scan_stops_first_min [OF ok ex, of 9999] obtain pre s post where
    p: "stops = pre @ s # post"
       "scan_stops lib stops lat long (9999, 99999)
          = Inr (StopId s, stop_distance lib s lat long)"
       "\<forall>t\<in>set pre. stop_distance lib s lat long < stop_distance lib t lat long"
       "\<forall>t\<in>set post. stop_distance lib s lat long \<le> stop_distance lib t lat long"
    by blast
  have "stop_distance lib s lat long \<le> stop_distance lib u lat long"
    using u(1) p(1,3,4) by auto
  then have le: "stop_distance lib s lat long \<le> DISTANCE_THRESHOLD" using u(2) by simp
  then have "find_stop_id lib (Stops stops) lat long = PInt (StopId s)"
    by (simp add: find_stop_id_def p(2))
  then show ?thesis using p le by blast
qed

text \<open>
  As long as \<open>distance\<close> raises for no stop of the loaded list, whatever the machine's
  arithmetic: \<open>find_stop_id\<close> returns 9999 when there is no stop or every stop is
  farther than \<open>DISTANCE_THRESHOLD\<close> (50 m) from the location; when some stop is within
  the threshold it returns the id of a stop \<open>s\<close> at the least distance, and \<open>s\<close> is the
  first such stop in iteration order: every stop before it is strictly farther, every
  stop after it at least as far.
\<close>

lemma find_stop_id_nearest:
  assumes "\<forall>s\<in>set stops. \<not> stop_raises lib s lat long"
  shows "(stops = [] \<or> (\<forall>s\<in>set stops. DISTANCE_THRESHOLD < stop_distance lib s lat long)
      \<longrightarrow> find_stop_id lib (Stops stops) lat long = PInt 9999)
   \<and> ((\<exists>s\<in>set stops. stop_distance lib s lat long \<le> DISTANCE_THRESHOLD)
      \<longrightarrow> (\<exists>pre s post. stops = pre @ s # post
            \<and> find_stop_id lib (Stops stops) lat long = PInt (StopId s)
            \<and> stop_distance lib s lat long \<le> DISTANCE_THRESHOLD
            \<and> (\<forall>t\<in>set pre. stop_distance lib s lat long < stop_distance lib t lat long)
            \<and> (\<forall>t\<in>set post. stop_distance lib s lat long \<le> stop_distance lib t lat long)))"
proof (intro conjI impI)
  assume "stops = [] \<or> (\<forall>s\<in>set stops. DISTANCE_THRESHOLD < stop_distance lib s lat long)"
  then have "\<forall>s\<in>set stops. DISTANCE_THRESHOLD < stop_distance lib s lat long" by auto
  with assms show "find_stop_id lib (Stops stops) lat long = PInt 9999"
    by (rule find_stop_id_far)
next
  assume "\<exists>s\<in>set stops. stop_distance lib s lat long \<le> DISTANCE_THRESHOLD"
  with assms show "\<exists>pre s post. stops = pre @ s # post
            \<and> find_stop_id lib (Stops stops) lat long = PInt (StopId s)
            \<and> stop_distance lib s lat long \<le> DISTANCE_THRESHOLD
            \<and> (\<forall>t\<in>set pre. stop_distance lib s lat long < stop_distance lib t lat long)
            \<and> (\<forall>t\<in>set post. stop_distance lib s lat long \<le> stop_distance lib t lat long)"
    by (rule find_stop_id_near)
qed

text \<open>
  When \<open>distance\<close> raises for a stop of the list, the loop ends there and
  \<open>find_stop_id\<close> returns the text of its \<^verbatim>\<open>except\<close> branch, whatever the other
  stops are.
\<close>

lemma scan_stops_raises:
  "\<forall>t\<in>set pre. \<not> stop_raises lib t lat long \<Longrightarrow>
   distance_float lib (StopLocationLatitude s) (StopLocationLongitude s) lat long = Inl e \<Longrightarrow>
   scan_stops lib (pre @ s # post) lat long acc = Inl e"
proof (induction pre arbitrary: acc)
  case Nil
  then show ?case by (cases acc) simp
next
  case (Cons x xs)
  have okx: "\<not> stop_raises lib x lat long" using Cons.prems(1) by simp
  have ok: "\<forall>t\<in>set xs. \<not> stop_raises lib t lat long" using Cons.prems(1) by simp
  show ?case
    by (cases acc) (simp add: distance_stop [OF okx] Cons.IH [OF ok Cons.prems(2)])
qed

lemma find_stop_id_raises:
  assumes "\<forall>t\<in>set pre. \<not> stop_raises lib t lat long"
    and "distance_float lib (StopLocationLatitude s) (StopLocationLongitude s) lat long = Inl e"
  shows "find_stop_id lib (Stops (pre @ s # post)) lat long
           = PStr (''Error loading data from S3 bucket'' @ [CHR 0x0A] @ str_exc e)"
  by (simp add: find_stop_id_def scan_stops_raises [OF assms])

lemma distance_float_antipode:
  "distance_float doubles_library (Some 82) (Some 0) (Some (- 82)) (Some (- 180))
     = Inl (ValueError ''math domain error'')"
  by (simp add: distance_float_def doubles_library_def py_sqrt_def)

text \<open>
  Claim C4 fails on the code. The allowed stops are loaded and hold one stop, at
  latitude 82, longitude 0; the location is its antipode. In double arithmetic the
  haversine term is above 1, \<^verbatim>\<open>sqrt(1-a)\<close> raises ValueError, and \<open>find_stop_id\<close>
  returns the text of its \<^verbatim>\<open>except\<close> branch: not 9999, although the only stop is
  farther than 50 m. With a second stop at the location itself, in front of or behind
  the first, the text is returned all the same, not the id of that stop. The comment
  above \<open>find_stop_id\<close> says it returns the stop id or else 9999.
\<close>

theorem find_stop_id_antipode:
  "find_stop_id doubles_library (Stops [polar_stop]) (Some (- 82)) (Some (- 180))
     = PStr (''Error loading data from S3 bucket'' @ [CHR 0x0A] @ ''math domain error'')
   \<and> find_stop_id doubles_library
        (Stops [\<lparr>StopId = 8, StopLocationLatitude = Some (- 82),
                  StopLocationLongitude = Some (- 180)\<rparr>, polar_stop])
        (Some (- 82)) (Some (- 180))
     = PStr (''Error loading data from S3 bucket'' @ [CHR 0x0A] @ ''math domain error'')"
proof -
  let ?near = "\<lparr>StopId = 8, StopLocationLatitude = Some (- 82),
                  StopLocationLongitude = Some (- 180)\<rparr>"
  have r: "distance_float doubles_library (StopLocationLatitude polar_stop)
             (StopLocationLongitude polar_stop) (Some (- 82)) (Some (- 180))
           = Inl (ValueError ''math domain error'')"
    by (simp add: polar_stop_def distance_float_antipode)
  have here: "haversine_a (- 82) (- 180) (- 82) (- 180) = 0" by (rule haversine_a_same)
  have n: "\<not> stop_raises doubles_library ?near (Some (- 82)) (Some (- 180))"
    by (simp add: stop_raises_def distance_float_def doubles_library_def here py_sqrt_def)
  have a: "find_stop_id doubles_library (Stops ([] @ polar_stop # [])) (Some (- 82))
             (Some (- 180))
           = PStr (''Error loading data from S3 bucket'' @ [CHR 0x0A]
                @ str_exc (ValueError ''math domain error''))"
    by (rule find_stop_id_raises [OF _ r]) simp
  have b: "find_stop_id doubles_library (Stops ([?near] @ polar_stop # [])) (Some (- 82))
             (Some (- 180))
           = PStr (''Error loading data from S3 bucket'' @ [CHR 0x0A]
                @ str_exc (ValueError ''math domain error''))"
    by (rule find_stop_id_raises [OF _ r]) (simp add: n)
  show ?thesis using a b by simp
qed

text \<open>
  In exact arithmetic the claim holds for every location and every loaded list; two
  stops at the location itself are a tie, and the first is returned.
\<close>

lemma find_stop_id_nearest_exact:
  assumes "float_haversine lib = haversine_a"
  shows "(stops = [] \<or> (\<forall>s\<in>set stops. DISTANCE_THRESHOLD < stop_distance lib s lat long)
      \<longrightarrow> find_stop_id lib (Stops stops) lat long = PInt 9999)
   \<and> ((\<exists>s\<in>set stops. stop_distance lib s lat long \<le> DISTANCE_THRESHOLD)
      \<longrightarrow> (\<exists>pre s post. stops = pre @ s # post
            \<and> find_stop_id lib (Stops stops) lat long = PInt (StopId s)
            \<and> stop_distance lib s lat long \<le> DISTANCE_THRESHOLD
            \<and> (\<forall>t\<in>set pre. stop_distance lib s lat long < stop_distance lib t lat long)
            \<and> (\<forall>t\<in>set post. stop_distance lib s lat long \<le> stop_distance lib t lat long)))"
  by (rule find_stop_id_nearest) (simp add: exact_never_raises [OF assms])

lemma find_stop_id_tie:
  "find_stop_id example_library
     (Stops [\<lparr>StopId = 7, StopLocationLatitude = Some 1, StopLocationLongitude = Some 2\<rparr>,
             \<lparr>StopId = 8, StopLocationLatitude = Some 1, StopLocationLongitude = Some 2\<rparr>])
     (Some 1) (Some 2) = PInt 7"
proof -
  have "float_haversine example_library = haversine_a" by (simp add: example_library_def)
  then have "\<And>a b c d. distance_float example_library a b c d = distance a b c d"
    by (rule distance_float_exact)
  then show ?thesis
    by (simp add: find_stop_id_def distance_same DISTANCE_THRESHOLD_def)
qed

subsection \<open>build_sfmta_payload\<close>

text \<open>
  When \<open>build_sfmta_payload\<close> returns, every lookup has succeeded and the record is
  the nine items below, in this order.
\<close>

lemma build_sfmta_payload_Inr:
  assumes "build_sfmta_payload lib env allowed_stops g vehicle_id current_time = Inr p"
  shows "\<exists>tech company placard plate on_trip lat long.
      environ_int lib ''SFMTA_TECH_PROVIDER_ID'' (SFMTA_TECH_PROVIDER_ID env) = Inr tech
    \<and> environ_get ''SFMTA_SHUTTLE_COMPANY_ID'' (SFMTA_SHUTTLE_COMPANY_ID env) = Inr company
    \<and> placards g vehicle_id = Some placard
    \<and> license_plates g vehicle_id = Some plate
    \<and> vehicle_onTrip g vehicle_id = Some on_trip
    \<and> vehicle_lat g vehicle_id = Some lat
    \<and> vehicle_long g vehicle_id = Some long
    \<and> p = [(''TechProviderId'', PInt tech),
           (''ShuttleCompanyId'', PStr company),
           (''VehiclePlacardNum'', PStr placard),
           (''LicensePlateNum'', PStr plate),
           (''StopId'', if on_trip then PInt 9999 else find_stop_id lib allowed_stops lat long),
           (''VehicleStatus'', PInt (if on_trip then 1 else 2)),
           (''LocationLatitude'', coord_val lat),
           (''LocationLongitude'', coord_val long),
           (''TimeStampLocal'', PStr (strftime_localtime lib current_time))]"
  using assms
  by (auto simp: build_sfmta_payload_def bind_exc_def dict_get_def Let_def
           split: sum.splits option.splits if_splits)

lemma example_environ_int:
  "environ_int example_library ''SFMTA_TECH_PROVIDER_ID'' (SFMTA_TECH_PROVIDER_ID example_environ)
     = Inr 42"
  by (simp add: environ_int_def environ_get_def bind_exc_def example_library_def
        example_environ_def)

lemma example_library_fields:
  "int_of_str example_library ''42'' = Some 42"
  "strftime_localtime example_library t = ''2020-01-01T00:00:00''"
  by (simp_all add: example_library_def)

lemma example_find_stop_id:
  "find_stop_id example_library example_stops (Some 37) (Some (-122)) = PInt 7"
proof -
  have "float_haversine example_library = haversine_a" by (simp add: example_library_def)
  then have "\<And>a b c d. distance_float example_library a b c d = distance a b c d"
    by (rule distance_float_exact)
  then show ?thesis
    by (simp add: find_stop_id_def example_stops_def distance_same DISTANCE_THRESHOLD_def)
qed

lemma example_build:
  "build_sfmta_payload example_library example_environ example_stops (example_globals on_trip)
       ''V1'' 1500000000
     = Inr [(''TechProviderId'', PInt 42),
            (''ShuttleCompanyId'', PStr ''ACME''),
            (''VehiclePlacardNum'', PStr ''P1''),
            (''LicensePlateNum'', PStr ''ABC123''),
            (''StopId'', if on_trip then PInt 9999 else PInt 7),
            (''VehicleStatus'', PInt (if on_trip then 1 else 2)),
            (''LocationLatitude'', PFloat 37),
            (''LocationLongitude'', PFloat (-122)),
            (''TimeStampLocal'', PStr ''2020-01-01T00:00:00'')]"
  by (simp add: build_sfmta_payload_def example_find_stop_id environ_int_def
        bind_exc_def dict_get_def environ_get_def example_globals_def
        example_environ_def example_library_fields)

text \<open>
  Claim C3. For every vehicle and cycle time, the record that \<open>build_sfmta_payload\<close>
  returns has, when the vehicle's \<open>onTrip\<close> flag is true, \<open>StopId = 9999\<close> and
  \<open>VehicleStatus = 1\<close>, whatever the allowed stops are; otherwise \<open>VehicleStatus = 2\<close>
  and \<open>StopId\<close> is exactly what \<open>find_stop_id\<close> returns for the vehicle's latitude and
  longitude.
\<close>

theorem build_sfmta_payload_stop_and_status:
  assumes "build_sfmta_payload lib env allowed_stops g vehicle_id current_time = Inr p"
  shows "\<exists>on_trip lat long.
      vehicle_onTrip g vehicle_id = Some on_trip
    \<and> vehicle_lat g vehicle_id = Some lat
    \<and> vehicle_long g vehicle_id = Some long
    \<and> map_of p ''StopId''
        = Some (if on_trip then PInt 9999 else find_stop_id lib allowed_stops lat long)
    \<and> map_of p ''VehicleStatus'' = Some (PInt (if on_trip then 1 else 2))"
proof -
  from build_sfmta_payload_Inr [OF assms]
  obtain tech company placard plate on_trip lat long where
    h: "vehicle_onTrip g vehicle_id = Some on_trip"
       "vehicle_lat g vehicle_id = Some lat"
       "vehicle_long g vehicle_id = Some long"
       "p = [(''TechProviderId'', PInt tech),
           (''ShuttleCompanyId'', PStr company),
           (''VehiclePlacardNum'', PStr placard),
           (''LicensePlateNum'', PStr plate),
           (''StopId'', if on_trip then PInt 9999 else find_stop_id lib allowed_stops lat long),
           (''VehicleStatus'', PInt (if on_trip then 1 else 2)),
           (''LocationLatitude'', coord_val lat),
           (''LocationLongitude'', coord_val long),
           (''TimeStampLocal'', PStr (strftime_localtime lib current_time))]"
    by blast
  have "map_of p ''StopId''
        = Some (if on_trip then PInt 9999 else find_stop_id lib allowed_stops lat long)"
    by (simp add: h(4))
  moreover have "map_of p ''VehicleStatus'' = Some (PInt (if on_trip then 1 else 2))"
    by (simp add: h(4))
  ultimately show ?thesis using h(1,2,3) by blast
qed

theorem build_sfmta_payload_stop_and_status_witness:
  "(\<exists>p. build_sfmta_payload example_library example_environ example_stops
            (example_globals True) ''V1'' 1500000000 = Inr p
        \<and> map_of p ''StopId'' = Some (PInt 9999)
        \<and> map_of p ''VehicleStatus'' = Some (PInt 1))
   \<and> (\<exists>p. build_sfmta_payload example_library example_environ example_stops
            (example_globals False) ''V1'' 1500000000 = Inr p
        \<and> map_of p ''StopId'' = Some (find_stop_id example_library example_stops (Some 37) (Some (-122)))
        \<and> map_of p ''VehicleStatus'' = Some (PInt 2))"
proof -
  have t: "\<exists>p. build_sfmta_payload example_library example_environ example_stops
            (example_globals True) ''V1'' 1500000000 = Inr p"
    by (simp add: example_build)
  have f: "\<exists>p. build_sfmta_payload example_library example_environ example_stops
            (example_globals False) ''V1'' 1500000000 = Inr p"
    by (simp add: example_build)
  from t obtain p where p: "build_sfmta_payload example_library example_environ example_stops
            (example_globals True) ''V1'' 1500000000 = Inr p" by blast
  from f obtain q where q: "build_sfmta_payload example_library example_environ example_stops
            (example_globals False) ''V1'' 1500000000 = Inr q" by blast
  have "map_of p ''StopId'' = Some (PInt 9999) \<and> map_of p ''VehicleStatus'' = Some (PInt 1)"
    using build_sfmta_payload_stop_and_status [OF p] by (auto simp: example_globals_def)
  moreover have "map_of q ''StopId'' = Some (find_stop_id example_library example_stops (Some 37) (Some (-122)))
      \<and> map_of q ''VehicleStatus'' = Some (PInt 2)"
    using build_sfmta_payload_stop_and_status [OF q] by (auto simp: example_globals_def)
  ultimately show ?thesis using p q by blast
qed

text \<open>
  Claim C8. For every vehicle and cycle, the record built has its fields in the order
  TechProviderId, ShuttleCompanyId, VehiclePlacardNum, LicensePlateNum, StopId,
  VehicleStatus, LocationLatitude, LocationLongitude, TimeStampLocal; its serialisation
  by \<open>json_dumps\<close> lists them in that order; and that serialisation is the only body
  \<open>push_vehicle_data\<close> posts.
\<close>

theorem payload_field_order:
  assumes "build_sfmta_payload lib env allowed_stops g vehicle_id current_time = Inr p"
  shows "map fst p =
           [''TechProviderId'', ''ShuttleCompanyId'', ''VehiclePlacardNum'', ''LicensePlateNum'',
            ''StopId'', ''VehicleStatus'', ''LocationLatitude'', ''LocationLongitude'',
            ''TimeStampLocal'']
    \<and> (\<exists>v1 v2 v3 v4 v5 v6 v7 v8 v9.
          json_dumps lib p =
            ''{'' @ json_item lib ''TechProviderId'' v1
            @ '', '' @ json_item lib ''ShuttleCompanyId'' v2
            @ '', '' @ json_item lib ''VehiclePlacardNum'' v3
            @ '', '' @ json_item lib ''LicensePlateNum'' v4
            @ '', '' @ json_item lib ''StopId'' v5
            @ '', '' @ json_item lib ''VehicleStatus'' v6
            @ '', '' @ json_item lib ''LocationLatitude'' v7
            @ '', '' @ json_item lib ''LocationLongitude'' v8
            @ '', '' @ json_item lib ''TimeStampLocal'' v9 @ ''}'')
    \<and> push_vehicle_data lib env allowed_stops api current_error_time server
          vehicle_id current_time g
        = push_vehicle_data lib env allowed_stops (\<lambda>k body. api k (json_dumps lib p))
            current_error_time server vehicle_id current_time g"
proof -
  from build_sfmta_payload_Inr [OF assms]
  obtain tech company placard plate on_trip lat long where
    h: "p = [(''TechProviderId'', PInt tech),
           (''ShuttleCompanyId'', PStr company),
           (''VehiclePlacardNum'', PStr placard),
           (''LicensePlateNum'', PStr plate),
           (''StopId'', if on_trip then PInt 9999 else find_stop_id lib allowed_stops lat long),
           (''VehicleStatus'', PInt (if on_trip then 1 else 2)),
           (''LocationLatitude'', coord_val lat),
           (''LocationLongitude'', coord_val long),
           (''TimeStampLocal'', PStr (strftime_localtime lib current_time))]"
    by blast
  have keys: "map fst p =
           [''TechProviderId'', ''ShuttleCompanyId'', ''VehiclePlacardNum'', ''LicensePlateNum'',
            ''StopId'', ''VehicleStatus'', ''LocationLatitude'', ''LocationLongitude'',
            ''TimeStampLocal'']"
    by (simp add: h)
  have body: "json_dumps lib p =
            ''{'' @ json_item lib ''TechProviderId'' (PInt tech)
            @ '', '' @ json_item lib ''ShuttleCompanyId'' (PStr company)
            @ '', '' @ json_item lib ''VehiclePlacardNum'' (PStr placard)
            @ '', '' @ json_item lib ''LicensePlateNum'' (PStr plate)
            @ '', '' @ json_item lib ''StopId''
                 (if on_trip then PInt 9999 else find_stop_id lib allowed_stops lat long)
            @ '', '' @ json_item lib ''VehicleStatus'' (PInt (if on_trip then 1 else 2))
            @ '', '' @ json_item lib ''LocationLatitude'' (coord_val lat)
            @ '', '' @ json_item lib ''LocationLongitude'' (coord_val long)
            @ '', '' @ json_item lib ''TimeStampLocal''
                 (PStr (strftime_localtime lib current_time)) @ ''}''"
    by (simp add: h json_dumps_def)
  have loop: "\<And>n k. push_loop n k api (json_dumps lib p)
                 = push_loop n k (\<lambda>k body. api k (json_dumps lib p)) (json_dumps lib p)"
  proof -
    fix n k
    show "push_loop n k api (json_dumps lib p)
                 = push_loop n k (\<lambda>k body. api k (json_dumps lib p)) (json_dumps lib p)"
      by (induction n arbitrary: k) (simp_all split: option.splits)
  qed
  have same: "push_vehicle_data lib env allowed_stops api current_error_time server
          vehicle_id current_time g
        = push_vehicle_data lib env allowed_stops (\<lambda>k body. api k (json_dumps lib p))
            current_error_time server vehicle_id current_time g"
    by (simp add: push_vehicle_data_def assms loop [symmetric])
  show ?thesis using keys body same by blast
qed

theorem payload_field_order_witness:
  "build_sfmta_payload example_library example_environ example_stops (example_globals False)
       ''V1'' 1500000000
     = Inr [(''TechProviderId'', PInt 42),
            (''ShuttleCompanyId'', PStr ''ACME''),
            (''VehiclePlacardNum'', PStr ''P1''),
            (''LicensePlateNum'', PStr ''ABC123''),
            (''StopId'', PInt 7),
            (''VehicleStatus'', PInt 2),
            (''LocationLatitude'', PFloat 37),
            (''LocationLongitude'', PFloat (-122)),
            (''TimeStampLocal'', PStr ''2020-01-01T00:00:00'')]
   \<and> map fst [(''TechProviderId'', PInt 42),
            (''ShuttleCompanyId'', PStr ''ACME''),
            (''VehiclePlacardNum'', PStr ''P1''),
            (''LicensePlateNum'', PStr ''ABC123''),
            (''StopId'', PInt 7),
            (''VehicleStatus'', PInt 2),
            (''LocationLatitude'', PFloat 37),
            (''LocationLongitude'', PFloat (-122)),
            (''TimeStampLocal'', PStr ''2020-01-01T00:00:00'')]
     = [''TechProviderId'', ''ShuttleCompanyId'', ''VehiclePlacardNum'', ''LicensePlateNum'',
        ''StopId'', ''VehicleStatus'', ''LocationLatitude'', ''LocationLongitude'',
        ''TimeStampLocal'']"
proof -
  have b: "build_sfmta_payload example_library example_environ example_stops
       (example_globals False) ''V1'' 1500000000
     = Inr [(''TechProviderId'', PInt 42),
            (''ShuttleCompanyId'', PStr ''ACME''),
            (''VehiclePlacardNum'', PStr ''P1''),
            (''LicensePlateNum'', PStr ''ABC123''),
            (''StopId'', PInt 7),
            (''VehicleStatus'', PInt 2),
            (''LocationLatitude'', PFloat 37),
            (''LocationLongitude'', PFloat (-122)),
            (''TimeStampLocal'', PStr ''2020-01-01T00:00:00'')]"
    using example_build [of False] by simp
  show ?thesis using b payload_field_order [OF b] by blast
qed

lemma error_email_if_due_state:
  "\<exists>l. snd (error_email_if_due t server body g) = g\<lparr>LAST_ERROR_EMAIL_TIME := l\<rparr>"
proof (cases "fst (error_email_if_due t server body g) = Inr True")
  case True
  then have "snd (error_email_if_due t server body g) = g\<lparr>LAST_ERROR_EMAIL_TIME := t\<rparr>"
    by (auto simp: error_email_if_due_def split: if_splits sum.splits)
  then show ?thesis by blast
next
  case False
  then have "snd (error_email_if_due t server body g)
      = g\<lparr>LAST_ERROR_EMAIL_TIME := LAST_ERROR_EMAIL_TIME g\<rparr>"
    by (auto simp: error_email_if_due_def split: if_splits sum.splits)
  then show ?thesis by blast
qed

lemma push_vehicle_data_state:
  "\<exists>l. state (push_vehicle_data lib env allowed_stops api t server vehicle_id current_time g)
         = g\<lparr>LAST_ERROR_EMAIL_TIME := l\<rparr>"
proof -
  obtain l where l: "snd (error_email_if_due t server
      (''There was an error pushing data to SFMTA API - please check logs''
         @ [CHR 0x0A, CHR 0x0A]) g) = g\<lparr>LAST_ERROR_EMAIL_TIME := l\<rparr>"
    using error_email_if_due_state by blast
  have same: "g = g\<lparr>LAST_ERROR_EMAIL_TIME := LAST_ERROR_EMAIL_TIME g\<rparr>" by simp
  have "state (push_vehicle_data lib env allowed_stops api t server vehicle_id current_time g)
          = g
      \<or> state (push_vehicle_data lib env allowed_stops api t server vehicle_id current_time g)
          = g\<lparr>LAST_ERROR_EMAIL_TIME := l\<rparr>"
    using l
    by (auto simp: push_vehicle_data_def Let_def
          split: sum.splits prod.splits bool.splits)
  then show ?thesis using same by metis
qed

lemma build_sfmta_payload_no_position:
  assumes "vehicle_onTrip g vehicle_id = None \<or> vehicle_lat g vehicle_id = None
           \<or> vehicle_long g vehicle_id = None"
  shows "\<exists>e. build_sfmta_payload lib env allowed_stops g vehicle_id current_time = Inl e"
proof (cases "build_sfmta_payload lib env allowed_stops g vehicle_id current_time")
  case (Inl e)
  then show ?thesis by blast
next
  case (Inr p)
  from build_sfmta_payload_Inr [OF Inr] assms show ?thesis by auto
qed

lemma build_sfmta_payload_KeyError:
  assumes "environ_int lib ''SFMTA_TECH_PROVIDER_ID'' (SFMTA_TECH_PROVIDER_ID env) = Inr tech"
    and "environ_get ''SFMTA_SHUTTLE_COMPANY_ID'' (SFMTA_SHUTTLE_COMPANY_ID env) = Inr company"
    and "placards g vehicle_id = Some placard"
    and "license_plates g vehicle_id = Some plate"
    and "vehicle_onTrip g vehicle_id = None"
  shows "build_sfmta_payload lib env allowed_stops g vehicle_id current_time
           = Inl (KeyError vehicle_id)"
  using assms by (simp add: build_sfmta_payload_def bind_exc_def dict_get_def)

lemma run_workers_no_position:
  assumes "vehicle_id \<in> set ids"
    and "vehicle_onTrip g vehicle_id = None \<or> vehicle_lat g vehicle_id = None
           \<or> vehicle_long g vehicle_id = None"
  shows "\<exists>e. fst (run_workers lib env w current_time ids g) = Some e"
  using assms
proof (induction ids arbitrary: g)
  case Nil
  then show ?case by simp
next
  case (Cons v vs)
  let ?r = "push_vehicle_data lib env (di_allowed_stops w v) (di_api w v)
                (di_error_time w v) (di_smtp w v) v current_time g"
  obtain l where l: "state ?r = g\<lparr>LAST_ERROR_EMAIL_TIME := l\<rparr>"
    using push_vehicle_data_state by blast
  have fst_eq: "fst (run_workers lib env w current_time (v # vs) g)
      = (case outcome ?r of Inl e \<Rightarrow> Some e
         | Inr x \<Rightarrow> fst (run_workers lib env w current_time vs (state ?r)))"
    by (auto simp: Let_def split: prod.splits sum.splits)
  show ?case
  proof (cases "v = vehicle_id")
    case True
    obtain e where "build_sfmta_payload lib env (di_allowed_stops w v) g v current_time = Inl e"
      using build_sfmta_payload_no_position [of g v] Cons.prems(2) True by blast
    then have oe: "outcome ?r = Inl e" by (simp add: push_vehicle_data_def)
    have "fst (run_workers lib env w current_time (v # vs) g) = Some e"
      by (simp only: fst_eq oe sum.case)
    then show ?thesis by blast
  next
    case False
    then have mem: "vehicle_id \<in> set vs" using Cons.prems(1) by simp
    have pos: "vehicle_onTrip (state ?r) vehicle_id = None
        \<or> vehicle_lat (state ?r) vehicle_id = None
        \<or> vehicle_long (state ?r) vehicle_id = None"
      using Cons.prems(2) by (simp add: l)
    from Cons.IH [OF mem pos] obtain e where
      e: "fst (run_workers lib env w current_time vs (state ?r)) = Some e" by blast
    have "\<exists>e'. (case outcome ?r of Inl e \<Rightarrow> Some e
         | Inr x \<Rightarrow> fst (run_workers lib env w current_time vs (state ?r))) = Some e'"
      by (cases "outcome ?r") (simp_all only: e sum.case, blast+)
    then show ?thesis by (simp only: fst_eq)
  qed
qed

text \<open>
  Claim C10. \<open>build_sfmta_payload\<close> is partial: for a vehicle id that is absent from
  \<open>vehicle_onTrip\<close>, \<open>vehicle_lat\<close> or \<open>vehicle_long\<close> (no location response has
  recorded it) the call raises; with the environment variables and the roster entry in
  place, the exception is the KeyError of the id, raised by the \<open>vehicle_onTrip\<close>
  lookup. So \<open>push_all_vehicle_data\<close> raises whenever \<open>vehicle_ids\<close> holds such an id:
  the dispatch needs a recorded position for every vehicle it processes.
\<close>

theorem build_sfmta_payload_needs_position:
  "(vehicle_onTrip g vehicle_id = None \<or> vehicle_lat g vehicle_id = None
       \<or> vehicle_long g vehicle_id = None
     \<longrightarrow> (\<exists>e. build_sfmta_payload lib env allowed_stops g vehicle_id current_time = Inl e))
   \<and> (environ_int lib ''SFMTA_TECH_PROVIDER_ID'' (SFMTA_TECH_PROVIDER_ID env) = Inr tech
       \<and> environ_get ''SFMTA_SHUTTLE_COMPANY_ID'' (SFMTA_SHUTTLE_COMPANY_ID env) = Inr company
       \<and> placards g vehicle_id = Some placard
       \<and> license_plates g vehicle_id = Some plate
       \<and> vehicle_onTrip g vehicle_id = None
     \<longrightarrow> build_sfmta_payload lib env allowed_stops g vehicle_id current_time
           = Inl (KeyError vehicle_id))
   \<and> (vehicle_id \<in> vehicle_ids g
       \<and> set (set_iteration lib (vehicle_ids g)) = vehicle_ids g
       \<and> (vehicle_onTrip g vehicle_id = None \<or> vehicle_lat g vehicle_id = None
           \<or> vehicle_long g vehicle_id = None)
     \<longrightarrow> (\<exists>e. fst (push_all_vehicle_data lib env w current_time g) = Some e))"
proof (intro conjI impI)
  assume "vehicle_onTrip g vehicle_id = None \<or> vehicle_lat g vehicle_id = None
       \<or> vehicle_long g vehicle_id = None"
  then show "\<exists>e. build_sfmta_payload lib env allowed_stops g vehicle_id current_time = Inl e"
    by (rule build_sfmta_payload_no_position)
next
  assume "environ_int lib ''SFMTA_TECH_PROVIDER_ID'' (SFMTA_TECH_PROVIDER_ID env) = Inr tech
       \<and> environ_get ''SFMTA_SHUTTLE_COMPANY_ID'' (SFMTA_SHUTTLE_COMPANY_ID env) = Inr company
       \<and> placards g vehicle_id = Some placard
       \<and> license_plates g vehicle_id = Some plate
       \<and> vehicle_onTrip g vehicle_id = None"
  then show "build_sfmta_payload lib env allowed_stops g vehicle_id current_time
           = Inl (KeyError vehicle_id)"
    using build_sfmta_payload_KeyError by blast
next
  assume a: "vehicle_id \<in> vehicle_ids g
       \<and> set (set_iteration lib (vehicle_ids g)) = vehicle_ids g
       \<and> (vehicle_onTrip g vehicle_id = None \<or> vehicle_lat g vehicle_id = None
           \<or> vehicle_long g vehicle_id = None)"
  then have ne: "vehicle_ids g \<noteq> {}" by blast
  from a have mem: "vehicle_id \<in> set (set_iteration lib (vehicle_ids g))" by simp
  from a have pos: "vehicle_onTrip g vehicle_id = None \<or> vehicle_lat g vehicle_id = None
           \<or> vehicle_long g vehicle_id = None" by simp
  show "\<exists>e. fst (push_all_vehicle_data lib env w current_time g) = Some e"
    using run_workers_no_position [OF mem pos] ne by (simp add: push_all_vehicle_data_def)
qed

theorem build_sfmta_payload_needs_position_witness:
  "vehicle_onTrip ((example_globals True)\<lparr>vehicle_onTrip := Map.empty\<rparr>) ''V1'' = None
   \<and> ''V1'' \<in> vehicle_ids ((example_globals True)\<lparr>vehicle_onTrip := Map.empty\<rparr>)
   \<and> build_sfmta_payload example_library example_environ example_stops
        ((example_globals True)\<lparr>vehicle_onTrip := Map.empty\<rparr>) ''V1'' 1500000000
       = Inl (KeyError ''V1'')
   \<and> (\<exists>e. fst (push_all_vehicle_data example_library example_environ example_dispatch
                1500000000 ((example_globals True)\<lparr>vehicle_onTrip := Map.empty\<rparr>)) = Some e)"
proof -
  let ?g = "(example_globals True)\<lparr>vehicle_onTrip := Map.empty\<rparr>"
  have h1: "vehicle_onTrip ?g ''V1'' = None" by simp
  have h2: "''V1'' \<in> vehicle_ids ?g" by (simp add: example_globals_def)
  have h3: "set (set_iteration example_library (vehicle_ids ?g)) = vehicle_ids ?g"
    by (simp add: example_globals_def example_library_def)
  have h4: "environ_int example_library ''SFMTA_TECH_PROVIDER_ID''
               (SFMTA_TECH_PROVIDER_ID example_environ) = Inr 42"
    by (rule example_environ_int)
  have h5: "environ_get ''SFMTA_SHUTTLE_COMPANY_ID'' (SFMTA_SHUTTLE_COMPANY_ID example_environ)
              = Inr ''ACME''"
    by (simp add: environ_get_def example_environ_def)
  have h6: "placards ?g ''V1'' = Some ''P1''" by (simp add: example_globals_def)
  have h7: "license_plates ?g ''V1'' = Some ''ABC123''" by (simp add: example_globals_def)
  note t = build_sfmta_payload_needs_position
             [of ?g "''V1''" example_library example_environ example_stops 1500000000
                 42 "''ACME''" "''P1''" "''ABC123''" example_dispatch]
  have c1: "build_sfmta_payload example_library example_environ example_stops ?g ''V1''
              1500000000 = Inl (KeyError ''V1'')"
    using t h1 h4 h5 h6 h7 by blast
  have c2: "\<exists>e. fst (push_all_vehicle_data example_library example_environ example_dispatch
                1500000000 ?g) = Some e"
    using t h1 h2 h3 by blast
  show ?thesis using h1 h2 c1 c2 by blast
qed

text \<open>
  Claim C5 fails on the code. When the allowed stops cannot be loaded, \<open>find_stop_id\<close>
  returns its error message, and \<open>build_sfmta_payload\<close> stores the message as
  \<open>StopId\<close>: neither a stop id nor 9999. The comment above \<open>find_stop_id\<close> says it
  returns the stop id or else 9999.
\<close>

theorem build_sfmta_payload_load_failure:
  "build_sfmta_payload example_library example_environ (LoadFails (IOError ''NoSuchKey''))
       (example_globals False) ''V1'' 1500000000
     = Inr [(''TechProviderId'', PInt 42),
            (''ShuttleCompanyId'', PStr ''ACME''),
            (''VehiclePlacardNum'', PStr ''P1''),
            (''LicensePlateNum'', PStr ''ABC123''),
            (''StopId'', PStr (''Error loading data from S3 bucket'' @ [CHR 0x0A] @ ''NoSuchKey'')),
            (''VehicleStatus'', PInt 2),
            (''LocationLatitude'', PFloat 37),
            (''LocationLongitude'', PFloat (-122)),
            (''TimeStampLocal'', PStr ''2020-01-01T00:00:00'')]"
  by (simp add: build_sfmta_payload_def find_stop_id_def environ_int_def
        bind_exc_def dict_get_def environ_get_def example_globals_def
        example_environ_def example_library_def)

text \<open>
  With the stops loaded and \<open>distance\<close> raising for none of them, the result is 9999
  or the id of one of the stops.
\<close>

lemma find_stop_id_loaded_range:
  assumes ok: "\<forall>s\<in>set stops. \<not> stop_raises lib s lat long"
  shows "\<exists>i. find_stop_id lib (Stops stops) lat long = PInt i
           \<and> (i = 9999 \<or> i \<in> StopId ` set stops)"
proof (cases "\<exists>s\<in>set stops. stop_distance lib s lat long \<le> DISTANCE_THRESHOLD")
  case True
  from find_stop_id_near [OF ok True] obtain pre s post where
    "stops = pre @ s # post" "find_stop_id lib (Stops stops) lat long = PInt (StopId s)"
    by blast
  then show ?thesis by auto
next
  case False
  then have "\<forall>s\<in>set stops. DISTANCE_THRESHOLD < stop_distance lib s lat long"
    by (auto simp: not_le)
  from find_stop_id_far [OF ok this] show ?thesis by blast
qed

subsection \<open>get_vehicle_details\<close>

lemma feed_ids_Cons:
  "gsx_samsaradeviceid e = Some v \<Longrightarrow> feed_ids (e # es) = insert v (feed_ids es)"
  by (simp add: feed_ids_def List.map_filter_simps)

lemma feed_column_Cons:
  "gsx_samsaradeviceid e = Some v \<Longrightarrow> field e = Some x \<Longrightarrow>
   m ++ feed_column field (e # es) = m(v \<mapsto> x) ++ feed_column field es"
  by (simp add: feed_column_def List.map_filter_simps)

lemma add_entries_complete:
  "\<forall>e\<in>set entries. entry_complete e \<Longrightarrow>
   add_entries entries g =
     (None, g\<lparr>vehicle_ids := vehicle_ids g \<union> feed_ids entries,
              placards := placards g ++ feed_column gsx_vehicleplacardnumber entries,
              license_plates := license_plates g ++ feed_column gsx_licenseplatenumber entries,
              vehicle_names := vehicle_names g ++ feed_column gsx_vehicleidname entries\<rparr>)"
proof (induction entries arbitrary: g)
  case Nil
  then show ?case by (simp add: feed_ids_def feed_column_def List.map_filter_simps)
next
  case (Cons e es)
  from Cons.prems have c: "entry_complete e" and rest: "\<forall>e\<in>set es. entry_complete e" by auto
  from c obtain v p l n where
    f: "gsx_samsaradeviceid e = Some v" "gsx_vehicleplacardnumber e = Some p"
       "gsx_licenseplatenumber e = Some l" "gsx_vehicleidname e = Some n"
    by (auto simp: entry_complete_def)
  let ?g = "g\<lparr>vehicle_ids := insert v (vehicle_ids g), placards := (placards g)(v \<mapsto> p),
               license_plates := (license_plates g)(v \<mapsto> l),
               vehicle_names := (vehicle_names g)(v \<mapsto> n)\<rparr>"
  have step: "add_entries (e # es) g = add_entries es ?g"
    by (simp add: f)
  show ?case
    unfolding step Cons.IH [OF rest]
    by (simp add: feed_ids_Cons [OF f(1)]
          feed_column_Cons [where field = gsx_vehicleplacardnumber, OF f(1) f(2)]
          feed_column_Cons [where field = gsx_licenseplatenumber, OF f(1) f(3)]
          feed_column_Cons [where field = gsx_vehicleidname, OF f(1) f(4)])
qed

lemma add_entries_append:
  "\<forall>e\<in>set pre. entry_complete e \<Longrightarrow>
   add_entries (pre @ rest) g = add_entries rest (snd (add_entries pre g))"
proof (induction pre arbitrary: g)
  case Nil
  then show ?case by simp
next
  case (Cons e es)
  from Cons.prems have c: "entry_complete e" and rest: "\<forall>e\<in>set es. entry_complete e" by auto
  from c obtain v p l n where
    f: "gsx_samsaradeviceid e = Some v" "gsx_vehicleplacardnumber e = Some p"
       "gsx_licenseplatenumber e = Some l" "gsx_vehicleidname e = Some n"
    by (auto simp: entry_complete_def)
  show ?case by (simp add: f Cons.IH [OF rest])
qed

lemma add_entries_incomplete:
  "\<not> entry_complete bad \<Longrightarrow>
   \<exists>e g'. add_entries (bad # post) g = (Some e, g')
      \<and> vehicle_ids g' = vehicle_ids g \<union> set_option (gsx_samsaradeviceid bad)"
  by (auto simp: entry_complete_def Let_def split: option.splits)

lemma get_vehicle_details_Json:
  "get_vehicle_details (Response 200 (Json (Some entries))) g =
     (case add_entries entries (g\<lparr>vehicle_ids := {}\<rparr>) of
        (Some e, g') \<Rightarrow> (sheet_error e, g')
      | (None, g') \<Rightarrow> (''Success'', g'))"
  by (simp add: get_vehicle_details_def)

text \<open>
  A row that lacks a field stops the refresh after the id set has been cleared: the
  call returns the error text, and the id set holds the ids of the rows before the
  failing one, and the failing row's id when it has one.
\<close>

lemma get_vehicle_details_partial:
  assumes "\<forall>e\<in>set pre. entry_complete e" and "\<not> entry_complete bad"
  shows "\<exists>e g'. get_vehicle_details (Response 200 (Json (Some (pre @ bad # post)))) g
                 = (sheet_error e, g')
      \<and> vehicle_ids g' = feed_ids pre \<union> set_option (gsx_samsaradeviceid bad)"
proof -
  let ?g0 = "g\<lparr>vehicle_ids := {}\<rparr>"
  have a: "add_entries (pre @ bad # post) ?g0
             = add_entries (bad # post) (snd (add_entries pre ?g0))"
    by (rule add_entries_append [OF assms(1)])
  have b: "vehicle_ids (snd (add_entries pre ?g0)) = feed_ids pre"
    by (simp add: add_entries_complete [OF assms(1)])
  from add_entries_incomplete [OF assms(2), of post "snd (add_entries pre ?g0)"]
  obtain e g' where
    c: "add_entries (bad # post) (snd (add_entries pre ?g0)) = (Some e, g')"
       "vehicle_ids g' = vehicle_ids (snd (add_entries pre ?g0))
           \<union> set_option (gsx_samsaradeviceid bad)"
    by blast
  have "get_vehicle_details (Response 200 (Json (Some (pre @ bad # post)))) g
                 = (sheet_error e, g')"
    by (simp only: get_vehicle_details_Json a c(1) prod.case option.case)
  then show ?thesis using c(2) b by auto
qed

text \<open>
  Claim C7, amended. The roster is left entirely unchanged when \<open>urlopen\<close> raises, when
  the status is not 200, or when the body cannot be read or decoded. When every row of
  the feed is complete the call returns "Success", \<open>vehicle_ids\<close> is replaced by the ids
  of the feed, and \<open>placards\<close>, \<open>license_plates\<close> and \<open>vehicle_names\<close> are overwritten
  at the ids of the feed, the entries of all other ids staying as they were.
\<close>

theorem get_vehicle_details_refresh:
  "(url = UrlopenFails e \<or> url = Response code (ReadFails e)
      \<or> (code \<noteq> 200 \<and> url = Response code body)
     \<longrightarrow> snd (get_vehicle_details url g) = g)
   \<and> ((\<forall>entry\<in>set entries. entry_complete entry)
     \<longrightarrow> get_vehicle_details (Response 200 (Json (Some entries))) g =
           (''Success'',
            g\<lparr>vehicle_ids := feed_ids entries,
              placards := placards g ++ feed_column gsx_vehicleplacardnumber entries,
              license_plates := license_plates g ++ feed_column gsx_licenseplatenumber entries,
              vehicle_names := vehicle_names g ++ feed_column gsx_vehicleidname entries\<rparr>))"
proof (intro conjI impI)
  assume "url = UrlopenFails e \<or> url = Response code (ReadFails e)
      \<or> (code \<noteq> 200 \<and> url = Response code body)"
  then show "snd (get_vehicle_details url g) = g"
    by (auto simp: get_vehicle_details_def)
next
  assume c: "\<forall>entry\<in>set entries. entry_complete entry"
  show "get_vehicle_details (Response 200 (Json (Some entries))) g =
           (''Success'',
            g\<lparr>vehicle_ids := feed_ids entries,
              placards := placards g ++ feed_column gsx_vehicleplacardnumber entries,
              license_plates := license_plates g ++ feed_column gsx_licenseplatenumber entries,
              vehicle_names := vehicle_names g ++ feed_column gsx_vehicleidname entries\<rparr>)"
    by (simp add: get_vehicle_details_def add_entries_complete [OF c])
qed

theorem get_vehicle_details_refresh_witness:
  "snd (get_vehicle_details (UrlopenFails (IOError ''timeout'')) (example_globals False))
     = example_globals False
   \<and> snd (get_vehicle_details (Response 500 (Json (Some [example_row ''V2'']))) (example_globals False))
     = example_globals False
   \<and> entry_complete (example_row ''V2'')
   \<and> fst (get_vehicle_details (Response 200 (Json (Some [example_row ''V2'']))) (example_globals False))
     = ''Success''
   \<and> vehicle_ids (snd (get_vehicle_details (Response 200 (Json (Some [example_row ''V2''])))
        (example_globals False))) = {''V2''}"
proof -
  have c: "\<forall>entry\<in>set [example_row ''V2'']. entry_complete entry"
    by (simp add: entry_complete_def example_row_def)
  have ids: "feed_ids [example_row ''V2''] = {''V2''}"
    by (simp add: feed_ids_def example_row_def List.map_filter_simps)
  note t = get_vehicle_details_refresh
  have a: "snd (get_vehicle_details (UrlopenFails (IOError ''timeout'')) (example_globals False))
     = example_globals False"
    using t [of "UrlopenFails (IOError ''timeout'')" "IOError ''timeout''"] by blast
  have b: "snd (get_vehicle_details (Response 500 (Json (Some [example_row ''V2''])))
       (example_globals False)) = example_globals False"
    using t [of "Response 500 (Json (Some [example_row ''V2'']))" _ 500
                "Json (Some [example_row ''V2''])"] by simp
  have d: "get_vehicle_details (Response 200 (Json (Some [example_row ''V2''])))
            (example_globals False) =
           (''Success'',
            (example_globals False)\<lparr>vehicle_ids := feed_ids [example_row ''V2''],
              placards := placards (example_globals False)
                 ++ feed_column gsx_vehicleplacardnumber [example_row ''V2''],
              license_plates := license_plates (example_globals False)
                 ++ feed_column gsx_licenseplatenumber [example_row ''V2''],
              vehicle_names := vehicle_names (example_globals False)
                 ++ feed_column gsx_vehicleidname [example_row ''V2'']\<rparr>)"
    using t [of _ _ _ _ "example_globals False" "[example_row ''V2'']"] c by blast
  show ?thesis using a b c by (simp add: d ids)
qed

text \<open>
  Claim C7 as stated fails. From a roster holding only \<open>V1\<close>, a feed whose second row
  lacks its placard makes the call return the error text with \<open>vehicle_ids\<close> changed to
  \<open>{V2, V3}\<close> and the placard of \<open>V2\<close> stored: the prior roster is not left
  unchanged. And a successful refresh from a feed holding only \<open>V2\<close> keeps the placard
  of \<open>V1\<close>: the metadata maps are not replaced by the feed's contents.
\<close>

theorem get_vehicle_details_not_atomic:
  "vehicle_ids (example_globals False) = {''V1''}
   \<and> fst (get_vehicle_details
        (Response 200 (Json (Some [example_row ''V2'',
            (example_row ''V3'')\<lparr>gsx_vehicleplacardnumber := None\<rparr>])))
        (example_globals False))
     = sheet_error (KeyError ''gsx$vehicleplacardnumber'')
   \<and> vehicle_ids (snd (get_vehicle_details
        (Response 200 (Json (Some [example_row ''V2'',
            (example_row ''V3'')\<lparr>gsx_vehicleplacardnumber := None\<rparr>])))
        (example_globals False)))
     = {''V2'', ''V3''}
   \<and> placards (snd (get_vehicle_details
        (Response 200 (Json (Some [example_row ''V2'',
            (example_row ''V3'')\<lparr>gsx_vehicleplacardnumber := None\<rparr>])))
        (example_globals False))) ''V2''
     = Some ''P2''
   \<and> fst (get_vehicle_details (Response 200 (Json (Some [example_row ''V2''])))
        (example_globals False)) = ''Success''
   \<and> placards (snd (get_vehicle_details (Response 200 (Json (Some [example_row ''V2''])))
        (example_globals False))) ''V1'' = Some ''P1''"
  by (simp add: get_vehicle_details_def example_row_def example_globals_def insert_commute)

subsection \<open>The delay between error emails\<close>

lemma error_email_if_due_sent:
  "ERROR_EMAIL_DELAY < t - LAST_ERROR_EMAIL_TIME g \<Longrightarrow>
   error_email_if_due t Delivered body g = (Inr True, g\<lparr>LAST_ERROR_EMAIL_TIME := t\<rparr>)"
  by (simp add: error_email_if_due_def send_error_email_def)

lemma error_email_if_due_raises:
  "ERROR_EMAIL_DELAY < t - LAST_ERROR_EMAIL_TIME g \<Longrightarrow>
   error_email_if_due t (SmtpFails e) body g = (Inl e, g)"
  by (simp add: error_email_if_due_def send_error_email_def)

lemma error_email_if_due_held:
  "\<not> ERROR_EMAIL_DELAY < t - LAST_ERROR_EMAIL_TIME g \<Longrightarrow>
   error_email_if_due t server body g = (Inr False, g)"
  by (simp add: error_email_if_due_def)

text \<open>
  Either a mail goes out, the delay has passed and the time is recorded, or no mail
  goes out and the globals stay as they are.
\<close>

lemma error_email_if_due_cases:
  "(error_email_if_due t server body g = (Inr True, g\<lparr>LAST_ERROR_EMAIL_TIME := t\<rparr>)
      \<and> ERROR_EMAIL_DELAY < t - LAST_ERROR_EMAIL_TIME g)
   \<or> (fst (error_email_if_due t server body g) \<noteq> Inr True
      \<and> snd (error_email_if_due t server body g) = g)"
  by (cases server) (auto simp: error_email_if_due_def send_error_email_def)

lemma failure_reports_step:
  "failure_reports ((t, server, body) # rest) g =
     (if fst (error_email_if_due t server body g) = Inr True
      then t # failure_reports rest (snd (error_email_if_due t server body g))
      else failure_reports rest (snd (error_email_if_due t server body g)))"
  by (cases "error_email_if_due t server body g")
     (auto split: sum.splits bool.splits)

text \<open>
  Every mail of a run goes out more than \<open>ERROR_EMAIL_DELAY\<close> after the last one
  before the run.
\<close>

lemma failure_reports_after_last:
  "u \<in> set (failure_reports reports g) \<Longrightarrow> ERROR_EMAIL_DELAY < u - LAST_ERROR_EMAIL_TIME g"
proof (induction reports arbitrary: g)
  case Nil
  then show ?case by simp
next
  case (Cons r rest)
  obtain t server body where r: "r = (t, server, body)" by (cases r) auto
  have D: "0 < ERROR_EMAIL_DELAY" by (simp add: ERROR_EMAIL_DELAY_def)
  from error_email_if_due_cases [of t server body g] show ?case
  proof
    assume a: "error_email_if_due t server body g = (Inr True, g\<lparr>LAST_ERROR_EMAIL_TIME := t\<rparr>)
      \<and> ERROR_EMAIL_DELAY < t - LAST_ERROR_EMAIL_TIME g"
    then have eq: "failure_reports (r # rest) g
        = t # failure_reports rest (g\<lparr>LAST_ERROR_EMAIL_TIME := t\<rparr>)"
      by (simp add: r failure_reports_step del: failure_reports.simps)
    show ?thesis
    proof (cases "u = t")
      case True
      then show ?thesis using a by simp
    next
      case False
      then have "u \<in> set (failure_reports rest (g\<lparr>LAST_ERROR_EMAIL_TIME := t\<rparr>))"
        using Cons.prems eq by simp
      from Cons.IH [OF this] have "ERROR_EMAIL_DELAY < u - t" by simp
      then show ?thesis using a D by linarith
    qed
  next
    assume a: "fst (error_email_if_due t server body g) \<noteq> Inr True
      \<and> snd (error_email_if_due t server body g) = g"
    then have "failure_reports (r # rest) g = failure_reports rest g"
      by (simp add: r failure_reports_step del: failure_reports.simps)
    then show ?thesis using Cons.prems Cons.IH by simp
  qed
qed

lemma failure_reports_window:
  "length (filter (\<lambda>u. w \<le> u \<and> u \<le> w + ERROR_EMAIL_DELAY) (failure_reports reports g)) \<le> 1"
proof (induction reports arbitrary: g)
  case Nil
  then show ?case by simp
next
  case (Cons r rest)
  obtain t server body where r: "r = (t, server, body)" by (cases r) auto
  let ?in = "\<lambda>u. w \<le> u \<and> u \<le> w + ERROR_EMAIL_DELAY"
  from error_email_if_due_cases [of t server body g] show ?case
  proof
    assume a: "error_email_if_due t server body g = (Inr True, g\<lparr>LAST_ERROR_EMAIL_TIME := t\<rparr>)
      \<and> ERROR_EMAIL_DELAY < t - LAST_ERROR_EMAIL_TIME g"
    let ?g = "g\<lparr>LAST_ERROR_EMAIL_TIME := t\<rparr>"
    have eq: "failure_reports (r # rest) g = t # failure_reports rest ?g"
      using a by (simp add: r failure_reports_step del: failure_reports.simps)
    show ?thesis
    proof (cases "?in t")
      case True
      have "\<forall>u\<in>set (failure_reports rest ?g). \<not> ?in u"
      proof
        fix u assume "u \<in> set (failure_reports rest ?g)"
        from failure_reports_after_last [OF this] have "ERROR_EMAIL_DELAY < u - t" by simp
        then show "\<not> ?in u" using True by linarith
      qed
      then have "filter ?in (failure_reports rest ?g) = []"
        by (simp add: filter_empty_conv)
      then show ?thesis using True by (simp add: eq)
    next
      case False
      then show ?thesis using Cons.IH [of ?g] by (auto simp: eq)
    qed
  next
    assume a: "fst (error_email_if_due t server body g) \<noteq> Inr True
      \<and> snd (error_email_if_due t server body g) = g"
    then have "failure_reports (r # rest) g = failure_reports rest g"
      by (simp add: r failure_reports_step del: failure_reports.simps)
    then show ?thesis using Cons.IH [of g] by simp
  qed
qed

text \<open>
  For the reports of the main thread, which arrive one after the other: when the first
  of two reports is due a mail (more than \<open>ERROR_EMAIL_DELAY\<close>, 7200 s, after the last
  error email; from the start the last time is 0) and the mail server accepts, two
  reports less than the delay apart give exactly one mail and two reports more than the
  delay apart give two; and for every run of such reports, whatever their number, their
  texts and the state of the mail server, at most one mail goes out in any window of
  \<open>ERROR_EMAIL_DELAY\<close> seconds. Times are real numbers here.
\<close>

lemma main_thread_reports:
  "(ERROR_EMAIL_DELAY < t1 - LAST_ERROR_EMAIL_TIME g \<and> t1 \<le> t2 \<and> t2 - t1 < ERROR_EMAIL_DELAY
     \<longrightarrow> failure_reports [(t1, Delivered, body1), (t2, Delivered, body2)] g = [t1])
   \<and> (ERROR_EMAIL_DELAY < t1 - LAST_ERROR_EMAIL_TIME g \<and> ERROR_EMAIL_DELAY < t2 - t1
     \<longrightarrow> failure_reports [(t1, Delivered, body1), (t2, Delivered, body2)] g = [t1, t2])
   \<and> length (filter (\<lambda>u. w \<le> u \<and> u \<le> w + ERROR_EMAIL_DELAY) (failure_reports reports g')) \<le> 1"
proof (intro conjI impI)
  assume a: "ERROR_EMAIL_DELAY < t1 - LAST_ERROR_EMAIL_TIME g \<and> t1 \<le> t2
      \<and> t2 - t1 < ERROR_EMAIL_DELAY"
  then have first: "error_email_if_due t1 Delivered body1 g
      = (Inr True, g\<lparr>LAST_ERROR_EMAIL_TIME := t1\<rparr>)"
    by (simp add: error_email_if_due_sent)
  have "\<not> ERROR_EMAIL_DELAY < t2 - LAST_ERROR_EMAIL_TIME (g\<lparr>LAST_ERROR_EMAIL_TIME := t1\<rparr>)"
    using a by simp
  then have second: "error_email_if_due t2 Delivered body2 (g\<lparr>LAST_ERROR_EMAIL_TIME := t1\<rparr>)
      = (Inr False, g\<lparr>LAST_ERROR_EMAIL_TIME := t1\<rparr>)"
    by (rule error_email_if_due_held)
  show "failure_reports [(t1, Delivered, body1), (t2, Delivered, body2)] g = [t1]"
    by (simp add: first second)
next
  assume a: "ERROR_EMAIL_DELAY < t1 - LAST_ERROR_EMAIL_TIME g \<and> ERROR_EMAIL_DELAY < t2 - t1"
  then have first: "error_email_if_due t1 Delivered body1 g
      = (Inr True, g\<lparr>LAST_ERROR_EMAIL_TIME := t1\<rparr>)"
    by (simp add: error_email_if_due_sent)
  have "ERROR_EMAIL_DELAY < t2 - LAST_ERROR_EMAIL_TIME (g\<lparr>LAST_ERROR_EMAIL_TIME := t1\<rparr>)"
    using a by simp
  then have second: "error_email_if_due t2 Delivered body2 (g\<lparr>LAST_ERROR_EMAIL_TIME := t1\<rparr>)
      = (Inr True, g\<lparr>LAST_ERROR_EMAIL_TIME := t1, LAST_ERROR_EMAIL_TIME := t2\<rparr>)"
    by (rule error_email_if_due_sent)
  show "failure_reports [(t1, Delivered, body1), (t2, Delivered, body2)] g = [t1, t2]"
    by (simp add: first second)
next
  show "length (filter (\<lambda>u. w \<le> u \<and> u \<le> w + ERROR_EMAIL_DELAY) (failure_reports reports g')) \<le> 1"
    by (rule failure_reports_window)
qed

lemma main_thread_reports_example:
  "ERROR_EMAIL_DELAY < 1500000000 - LAST_ERROR_EMAIL_TIME initial_globals
   \<and> failure_reports [(1500000000, Delivered, ''pull''), (1500003600, Delivered, ''push'')]
        initial_globals = [1500000000]
   \<and> failure_reports [(1500000000, Delivered, ''pull''), (1500007201, Delivered, ''push'')]
        initial_globals = [1500000000, 1500007201]
   \<and> length (filter (\<lambda>u. 1500000000 \<le> u \<and> u \<le> 1500000000 + ERROR_EMAIL_DELAY)
        (failure_reports [(1500000000, Delivered, ''pull''), (1500000005, Delivered, ''push''),
           (1500000010, SmtpFails (IOError ''refused''), ''loop''),
           (1500007000, Delivered, ''push'')] initial_globals)) \<le> 1"
proof -
  have h: "ERROR_EMAIL_DELAY < 1500000000 - LAST_ERROR_EMAIL_TIME initial_globals"
    by (simp add: ERROR_EMAIL_DELAY_def initial_globals_def)
  have D: "ERROR_EMAIL_DELAY = 7200" by (simp add: ERROR_EMAIL_DELAY_def)
  have a: "failure_reports [(1500000000, Delivered, ''pull''), (1500003600, Delivered, ''push'')]
        initial_globals = [1500000000]"
    using main_thread_reports [of 1500000000 initial_globals 1500003600 "''pull''" "''push''"] h
    by (simp add: D)
  have b: "failure_reports [(1500000000, Delivered, ''pull''), (1500007201, Delivered, ''push'')]
        initial_globals = [1500000000, 1500007201]"
    using main_thread_reports [of 1500000000 initial_globals 1500007201 "''pull''" "''push''"] h
    by (simp add: D)
  have c: "length (filter (\<lambda>u. 1500000000 \<le> u \<and> u \<le> 1500000000 + ERROR_EMAIL_DELAY)
        (failure_reports [(1500000000, Delivered, ''pull''), (1500000005, Delivered, ''push''),
           (1500000010, SmtpFails (IOError ''refused''), ''loop''),
           (1500007000, Delivered, ''push'')] initial_globals)) \<le> 1"
    using main_thread_reports by blast
  show ?thesis using h a b c by blast
qed

subsection \<open>The error emails of the pool's threads\<close>

lemma error_email_if_due_steps:
  "error_email_if_due t server body g =
     (if email_due t g then send_and_record t server body g else (Inr False, g))"
  by (simp add: error_email_if_due_def email_due_def send_and_record_def)

text \<open>
  A thread whose two steps follow each other with no step of another thread in between
  does what the block does in one piece.
\<close>

lemma run_schedule_alone:
  "run_schedule [Tests v t, Sends v server] Map.empty g =
     ((if fst (error_email_if_due t server
                 (''There was an error pushing data to SFMTA API - please check logs''
                    @ [CHR 0x0A, CHR 0x0A]) g) = Inr True
       then [(v, t)] else []),
      snd (error_email_if_due t server
             (''There was an error pushing data to SFMTA API - please check logs''
                @ [CHR 0x0A, CHR 0x0A]) g))"
  by (cases server)
     (simp_all add: error_email_if_due_steps send_and_record_def send_error_email_def)

text \<open>
  Claim C2 fails on the code. The pushes of two vehicles use up their retries in the
  same cycle, one second apart, with no error email sent before. When the thread of
  \<open>V2\<close> makes its test while the thread of \<open>V1\<close> is still in \<open>send_error_email\<close>,
  \<open>LAST_ERROR_EMAIL_TIME\<close> is still 0, both tests pass and two mails go out, one
  second apart: two notifications for two failures less than \<open>ERROR_EMAIL_DELAY\<close>
  apart, and two in one window. Only when the thread of \<open>V1\<close> has written
  \<open>LAST_ERROR_EMAIL_TIME\<close> before the thread of \<open>V2\<close> makes its test is there one
  mail. The header of the file says error emails are sent at most once for every
  \<open>ERROR_EMAIL_DELAY\<close>.
\<close>

theorem error_emails_of_two_threads:
  "fst (run_schedule
          [Tests ''V1'' 1500000000, Tests ''V2'' 1500000001,
           Sends ''V1'' Delivered, Sends ''V2'' Delivered]
          Map.empty initial_globals)
     = [(''V1'', 1500000000), (''V2'', 1500000001)]
   \<and> fst (run_schedule
          [Tests ''V1'' 1500000000, Sends ''V1'' Delivered,
           Tests ''V2'' 1500000001, Sends ''V2'' Delivered]
          Map.empty initial_globals)
     = [(''V1'', 1500000000)]"
  by (simp add: email_due_def send_and_record_def send_error_email_def
        ERROR_EMAIL_DELAY_def initial_globals_def)

subsection \<open>The retry loops and the main loop\<close>

text \<open>
  The loop over the vehicles of a response raises exactly when some vehicle lacks a
  key.
\<close>

lemma store_locations_ok:
  "fst (store_locations vehicles g) = None \<longleftrightarrow> list_all vehicle_complete vehicles"
  by (induction vehicles arbitrary: g)
     (auto simp: vehicle_complete_def Let_def split: option.splits)

lemma fetch_loop_failed_attempt:
  "\<not> response_ok (api k) \<Longrightarrow>
   \<exists>g'. fetch_loop (Suc r) k api g = fetch_loop r (Suc k) api g'"
proof (cases "api k")
  case (RequestFails e)
  then show ?thesis by auto
next
  case (Locations vehicles)
  assume "\<not> response_ok (api k)"
  then have "fst (store_locations vehicles g) \<noteq> None"
    using Locations by (simp add: store_locations_ok)
  then obtain e g' where "store_locations vehicles g = (Some e, g')"
    by (cases "store_locations vehicles g") auto
  then show ?thesis using Locations by auto
qed

text \<open>
  The retry loops: when every attempt fails the loop ends after exactly as many
  requests as it had retries; when an attempt succeeds after fewer failures than that,
  the loop returns at that request.
\<close>

lemma fetch_loop_exhausted:
  "\<forall>k<r. \<not> response_ok (api (k0 + k)) \<Longrightarrow>
   \<exists>g'. fetch_loop r k0 api g = (False, k0 + r, g')"
proof (induction r arbitrary: k0 g)
  case 0
  then show ?case by simp
next
  case (Suc r)
  from Suc.prems have "\<not> response_ok (api k0)" by (metis add.right_neutral zero_less_Suc)
  then obtain g1 where step: "fetch_loop (Suc r) k0 api g = fetch_loop r (Suc k0) api g1"
    using fetch_loop_failed_attempt by blast
  have "\<forall>k<r. \<not> response_ok (api (Suc k0 + k))"
    using Suc.prems by (metis Suc_less_eq add_Suc_shift)
  from Suc.IH [OF this, of g1] show ?case by (simp add: step del: fetch_loop.simps)
qed

lemma fetch_loop_succeeds:
  "n < r \<Longrightarrow> \<forall>k<n. \<not> response_ok (api (k0 + k)) \<Longrightarrow> response_ok (api (k0 + n)) \<Longrightarrow>
   \<exists>g'. fetch_loop r k0 api g = (True, k0 + n + 1, g')"
proof (induction r arbitrary: k0 g n)
  case 0
  then show ?case by simp
next
  case (Suc r)
  show ?case
  proof (cases n)
    case 0
    with Suc.prems(3) obtain vehicles where
      v: "api k0 = Locations vehicles" "list_all vehicle_complete vehicles"
      by (cases "api k0") auto
    then have "fst (store_locations vehicles g) = None" by (simp add: store_locations_ok)
    then obtain g' where "store_locations vehicles g = (None, g')"
      by (cases "store_locations vehicles g") auto
    then show ?thesis using v 0 by simp
  next
    case (Suc m)
    from Suc.prems(2) Suc have "\<not> response_ok (api k0)"
      by (metis add.right_neutral zero_less_Suc)
    then obtain g1 where step: "fetch_loop (Suc r) k0 api g = fetch_loop r (Suc k0) api g1"
      using fetch_loop_failed_attempt by blast
    have a: "m < r" using Suc.prems(1) Suc by simp
    have b: "\<forall>k<m. \<not> response_ok (api (Suc k0 + k))"
      using Suc.prems(2) Suc by (metis Suc_less_eq add_Suc_shift)
    have c: "response_ok (api (Suc k0 + m))" using Suc.prems(3) Suc by simp
    from Suc.IH [OF a b c, of g1] show ?thesis by (simp add: step Suc del: fetch_loop.simps)
  qed
qed

lemma push_loop_exhausted:
  "\<forall>k<r. api (k0 + k) body \<noteq> None \<Longrightarrow> push_loop r k0 api body = (False, k0 + r)"
proof (induction r arbitrary: k0)
  case 0
  then show ?case by simp
next
  case (Suc r)
  from Suc.prems have "api k0 body \<noteq> None" by (metis add.right_neutral zero_less_Suc)
  then obtain e where e: "api k0 body = Some e" by auto
  have "\<forall>k<r. api (Suc k0 + k) body \<noteq> None"
    using Suc.prems by (metis Suc_less_eq add_Suc_shift)
  from Suc.IH [OF this] show ?case by (simp add: e)
qed

lemma push_loop_succeeds:
  "n < r \<Longrightarrow> \<forall>k<n. api (k0 + k) body \<noteq> None \<Longrightarrow> api (k0 + n) body = None \<Longrightarrow>
   push_loop r k0 api body = (True, k0 + n + 1)"
proof (induction r arbitrary: k0 n)
  case 0
  then show ?case by simp
next
  case (Suc r)
  show ?case
  proof (cases n)
    case 0
    then show ?thesis using Suc.prems(3) by simp
  next
    case (Suc m)
    from Suc.prems(2) Suc have "api k0 body \<noteq> None"
      by (metis add.right_neutral zero_less_Suc)
    then obtain e where e: "api k0 body = Some e" by auto
    have a: "m < r" using Suc.prems(1) Suc by simp
    have b: "\<forall>k<m. api (Suc k0 + k) body \<noteq> None"
      using Suc.prems(2) Suc by (metis Suc_less_eq add_Suc_shift)
    have c: "api (Suc k0 + m) body = None" using Suc.prems(3) Suc by simp
    from Suc.IH [OF a b c] show ?thesis by (simp add: e Suc)
  qed
qed

text \<open>
  \<open>get_all_vehicle_data\<close> returns "Success" at the first attempt that succeeds after
  fewer than \<open>MAX_RETRIES\<close> failures.
\<close>

lemma get_all_vehicle_data_success:
  assumes "environ_int lib ''SAMSARA_SFMTA_GROUP_ID'' (SAMSARA_SFMTA_GROUP_ID env) = Inr group_id"
    and "n < MAX_RETRIES" and "\<forall>k<n. \<not> response_ok (api k)" and "response_ok (api n)"
  shows "outcome (get_all_vehicle_data lib env sheet api t server g) = Inr (PStr ''Success'')
       \<and> attempts (get_all_vehicle_data lib env sheet api t server g) = n + 1"
proof -
  from fetch_loop_succeeds [of n MAX_RETRIES api 0 "snd (get_vehicle_details sheet g)"] assms
  obtain g' where "fetch_loop MAX_RETRIES 0 api (snd (get_vehicle_details sheet g))
      = (True, n + 1, g')" by auto
  then show ?thesis by (simp add: get_all_vehicle_data_def assms(1))
qed

lemma store_locations_LAST:
  "LAST_ERROR_EMAIL_TIME (snd (store_locations vehicles g)) = LAST_ERROR_EMAIL_TIME g"
  by (induction vehicles arbitrary: g) (auto simp: Let_def split: option.splits)

lemma fetch_loop_LAST:
  "LAST_ERROR_EMAIL_TIME (snd (snd (fetch_loop r k api g))) = LAST_ERROR_EMAIL_TIME g"
proof (induction r arbitrary: k g)
  case 0
  then show ?case by simp
next
  case (Suc r)
  show ?case
  proof (cases "api k")
    case (RequestFails e)
    then show ?thesis using Suc.IH by simp
  next
    case (Locations vehicles)
    obtain x g1 where st: "store_locations vehicles g = (x, g1)"
      by (cases "store_locations vehicles g") auto
    have l: "LAST_ERROR_EMAIL_TIME g1 = LAST_ERROR_EMAIL_TIME g"
      using store_locations_LAST [of vehicles g] by (simp add: st)
    show ?thesis
      by (cases x) (simp_all add: Locations st l Suc.IH)
  qed
qed

lemma add_entries_LAST:
  "LAST_ERROR_EMAIL_TIME (snd (add_entries entries g)) = LAST_ERROR_EMAIL_TIME g"
  by (induction entries arbitrary: g) (auto simp: Let_def split: option.splits)

lemma get_vehicle_details_LAST:
  "LAST_ERROR_EMAIL_TIME (snd (get_vehicle_details url g)) = LAST_ERROR_EMAIL_TIME g"
proof -
  have "\<And>entries. LAST_ERROR_EMAIL_TIME (snd (add_entries entries (g\<lparr>vehicle_ids := {}\<rparr>)))
      = LAST_ERROR_EMAIL_TIME g"
    by (simp add: add_entries_LAST)
  then show ?thesis
    by (auto simp: get_vehicle_details_def Let_def
          split: sheet_response.splits sheet_body.splits option.splits prod.splits)
       (metis snd_conv)+
qed

text \<open>
  After \<open>MAX_RETRIES\<close> failed attempts \<open>get_all_vehicle_data\<close> returns "Failure",
  whether an email is due or not, unless sending the email raises.
\<close>

lemma get_all_vehicle_data_exhausted:
  assumes "environ_int lib ''SAMSARA_SFMTA_GROUP_ID'' (SAMSARA_SFMTA_GROUP_ID env) = Inr group_id"
    and "\<forall>k<MAX_RETRIES. \<not> response_ok (api k)"
  shows "attempts (get_all_vehicle_data lib env sheet api t server g) = MAX_RETRIES
       \<and> outcome (get_all_vehicle_data lib env sheet api t server g)
           = (if ERROR_EMAIL_DELAY < t - LAST_ERROR_EMAIL_TIME g
              then (case server of Delivered \<Rightarrow> Inr (PStr ''Failure'') | SmtpFails e \<Rightarrow> Inl e)
              else Inr (PStr ''Failure''))"
proof -
  let ?g1 = "snd (get_vehicle_details sheet g)"
  from fetch_loop_exhausted [of MAX_RETRIES api 0 ?g1] assms(2)
  obtain g' where f: "fetch_loop MAX_RETRIES 0 api ?g1 = (False, MAX_RETRIES, g')" by auto
  have "LAST_ERROR_EMAIL_TIME g' = LAST_ERROR_EMAIL_TIME ?g1"
    using fetch_loop_LAST [of MAX_RETRIES 0 api ?g1] by (simp add: f)
  then have l: "LAST_ERROR_EMAIL_TIME g' = LAST_ERROR_EMAIL_TIME g"
    by (simp add: get_vehicle_details_LAST)
  show ?thesis
    by (cases server)
       (simp_all add: get_all_vehicle_data_def assms(1) f l error_email_if_due_def
          send_error_email_def)
qed

lemma push_vehicle_data_success:
  assumes "build_sfmta_payload lib env allowed_stops g vehicle_id current_time = Inr p"
    and "n < MAX_RETRIES" and "\<forall>k<n. api k (json_dumps lib p) \<noteq> None"
    and "api n (json_dumps lib p) = None"
  shows "push_vehicle_data lib env allowed_stops api t server vehicle_id current_time g
       = \<lparr>outcome = Inr (PStr ''Success''), attempts = n + 1, state = g\<rparr>"
proof -
  have "push_loop MAX_RETRIES 0 api (json_dumps lib p) = (True, 0 + n + 1)"
    using assms(2,3,4) by (intro push_loop_succeeds) auto
  then show ?thesis by (simp add: push_vehicle_data_def assms(1))
qed

text \<open>
  After \<open>MAX_RETRIES\<close> failed attempts \<open>push_vehicle_data\<close> returns "Failure" only
  when the email was due and sent; when no email is due it returns \<open>None\<close>.
\<close>

lemma push_vehicle_data_exhausted:
  assumes "build_sfmta_payload lib env allowed_stops g vehicle_id current_time = Inr p"
    and "\<forall>k<MAX_RETRIES. api k (json_dumps lib p) \<noteq> None"
  shows "attempts (push_vehicle_data lib env allowed_stops api t server vehicle_id current_time g)
           = MAX_RETRIES
       \<and> outcome (push_vehicle_data lib env allowed_stops api t server vehicle_id current_time g)
           = (if ERROR_EMAIL_DELAY < t - LAST_ERROR_EMAIL_TIME g
              then (case server of Delivered \<Rightarrow> Inr (PStr ''Failure'') | SmtpFails e \<Rightarrow> Inl e)
              else Inr PNone)"
proof -
  have f: "push_loop MAX_RETRIES 0 api (json_dumps lib p) = (False, 0 + MAX_RETRIES)"
    using assms(2) by (intro push_loop_exhausted) auto
  show ?thesis
    by (cases server)
       (simp_all add: push_vehicle_data_def assms(1) f error_email_if_due_def
          send_error_email_def)
qed

lemma example_group_id:
  "environ_int example_library ''SAMSARA_SFMTA_GROUP_ID'' (SAMSARA_SFMTA_GROUP_ID example_environ)
     = Inr 42"
  by (simp add: environ_int_def environ_get_def bind_exc_def example_library_def
        example_environ_def)

text \<open>
  Claim C1 fails on the code for \<open>push_vehicle_data\<close>. All ten POSTs of vehicle \<open>V1\<close>
  fail, 100 s after the last error email: the call makes exactly \<open>MAX_RETRIES\<close> = 10
  attempts and then returns \<open>None\<close>, not a terminal error, because
  \<^verbatim>\<open>return "Failure"\<close> stands inside the branch that sends the email. In the same
  situation \<open>get_all_vehicle_data\<close>, whose \<^verbatim>\<open>return "Failure"\<close> stands one level
  out, returns "Failure".
\<close>

theorem push_vehicle_data_exhausted_no_email:
  "outcome (push_vehicle_data example_library example_environ example_stops
       (\<lambda>k body. Some (IOError ''503 Service Unavailable'')) 1500000100 Delivered
       ''V1'' 1500000000 ((example_globals False)\<lparr>LAST_ERROR_EMAIL_TIME := 1500000000\<rparr>))
     = Inr PNone
   \<and> attempts (push_vehicle_data example_library example_environ example_stops
       (\<lambda>k body. Some (IOError ''503 Service Unavailable'')) 1500000100 Delivered
       ''V1'' 1500000000 ((example_globals False)\<lparr>LAST_ERROR_EMAIL_TIME := 1500000000\<rparr>))
     = 10
   \<and> outcome (get_all_vehicle_data example_library example_environ
       (UrlopenFails (IOError ''timeout''))
       (\<lambda>k. RequestFails (IOError ''503 Service Unavailable'')) 1500000100 Delivered
       ((example_globals False)\<lparr>LAST_ERROR_EMAIL_TIME := 1500000000\<rparr>))
     = Inr (PStr ''Failure'')"
proof -
  let ?g = "(example_globals False)\<lparr>LAST_ERROR_EMAIL_TIME := 1500000000\<rparr>"
  let ?api = "\<lambda>(k::nat) (body::string). Some (IOError ''503 Service Unavailable'')"
  have b: "build_sfmta_payload example_library example_environ example_stops ?g
       ''V1'' 1500000000
     = Inr [(''TechProviderId'', PInt 42),
            (''ShuttleCompanyId'', PStr ''ACME''),
            (''VehiclePlacardNum'', PStr ''P1''),
            (''LicensePlateNum'', PStr ''ABC123''),
            (''StopId'', PInt 7),
            (''VehicleStatus'', PInt 2),
            (''LocationLatitude'', PFloat 37),
            (''LocationLongitude'', PFloat (-122)),
            (''TimeStampLocal'', PStr ''2020-01-01T00:00:00'')]"
    by (simp add: build_sfmta_payload_def example_find_stop_id environ_int_def
        bind_exc_def dict_get_def environ_get_def example_globals_def
        example_environ_def example_library_fields)
  have closed: "\<not> ERROR_EMAIL_DELAY < 1500000100 - LAST_ERROR_EMAIL_TIME ?g"
    by (simp add: ERROR_EMAIL_DELAY_def)
  have p: "attempts (push_vehicle_data example_library example_environ example_stops
              ?api 1500000100 Delivered ''V1'' 1500000000 ?g) = MAX_RETRIES
       \<and> outcome (push_vehicle_data example_library example_environ example_stops
              ?api 1500000100 Delivered ''V1'' 1500000000 ?g) = Inr PNone"
    using push_vehicle_data_exhausted [OF b, of ?api 1500000100 Delivered] closed by simp
  have f: "outcome (get_all_vehicle_data example_library example_environ
       (UrlopenFails (IOError ''timeout''))
       (\<lambda>k. RequestFails (IOError ''503 Service Unavailable'')) 1500000100 Delivered ?g)
     = Inr (PStr ''Failure'')"
    using get_all_vehicle_data_exhausted [OF example_group_id,
            of "\<lambda>k. RequestFails (IOError ''503 Service Unavailable'')"
               "UrlopenFails (IOError ''timeout'')" 1500000100 Delivered ?g]
    by simp
  show ?thesis using p f by (simp add: MAX_RETRIES_def)
qed

text \<open>
  When \<open>send_error_email\<close> does not raise in the \<^verbatim>\<open>except\<close> block, the loop goes on
  to its next pass whatever happened in the \<^verbatim>\<open>try\<close> block; the loop ends only by an
  exception of \<open>send_error_email\<close> in the \<^verbatim>\<open>except\<close> block.
\<close>

lemma cycle_continues:
  "ci_handler_smtp c = Delivered \<Longrightarrow> \<exists>g'. cycle lib env c g = Running g'"
  by (auto simp: cycle_def error_email_if_due_def send_error_email_def
        split: prod.splits option.splits sum.splits)

lemma cycle_terminated:
  assumes "cycle lib env c g = Terminated e g'"
  shows "ci_handler_smtp c = SmtpFails e
       \<and> fst (cycle_body lib env c g) \<noteq> None
       \<and> g' = snd (cycle_body lib env c g)
       \<and> ERROR_EMAIL_DELAY < ci_handler_time c - LAST_ERROR_EMAIL_TIME g'"
  using assms
  by (cases "ci_handler_smtp c")
     (auto simp: cycle_def error_email_if_due_def send_error_email_def
        split: prod.splits option.splits sum.splits if_splits)

text \<open>
  Claim C6 fails on the code. During the outage the ten requests to the Samsara API
  fail, the error email that is then due cannot be sent, and the exception of
  \<open>send_error_email\<close> reaches the \<^verbatim>\<open>except\<close> block of the loop; there the email is
  still due, \<open>send_error_email\<close> raises again, and nothing catches this exception: the
  loop is over, and the second pass never runs.
\<close>

theorem push_all_data_terminates_on_error:
  "cycle example_library example_environ example_outage (example_globals False)
     = Terminated (IOError ''smtp unreachable'') (example_globals False)
   \<and> push_all_data example_library example_environ [example_outage, example_outage]
        (example_globals False)
     = Terminated (IOError ''smtp unreachable'') (example_globals False)"
proof -
  let ?g = "example_globals False"
  have due1: "ERROR_EMAIL_DELAY < 1500000001 - LAST_ERROR_EMAIL_TIME ?g"
    by (simp add: ERROR_EMAIL_DELAY_def example_globals_def)
  have due2: "ERROR_EMAIL_DELAY < 1500000002 - LAST_ERROR_EMAIL_TIME ?g"
    by (simp add: ERROR_EMAIL_DELAY_def example_globals_def)
  have sheet: "snd (get_vehicle_details (UrlopenFails (IOError ''network unreachable'')) ?g) = ?g"
    by (simp add: get_vehicle_details_def)
  have "\<And>r k. fetch_loop r k (\<lambda>k. RequestFails (IOError ''network unreachable'')) ?g
      = (False, k + r, ?g)"
  proof -
    fix r k
    show "fetch_loop r k (\<lambda>k. RequestFails (IOError ''network unreachable'')) ?g
      = (False, k + r, ?g)"
      by (induction r arbitrary: k) simp_all
  qed
  from this [of MAX_RETRIES 0] have loop: "fetch_loop MAX_RETRIES 0
       (\<lambda>k. RequestFails (IOError ''network unreachable'')) ?g = (False, MAX_RETRIES, ?g)"
    by simp
  have fetch: "get_all_vehicle_data example_library example_environ
        (UrlopenFails (IOError ''network unreachable''))
        (\<lambda>k. RequestFails (IOError ''network unreachable'')) 1500000001
        (SmtpFails (IOError ''smtp unreachable'')) ?g
      = \<lparr>outcome = Inl (IOError ''smtp unreachable''), attempts = MAX_RETRIES, state = ?g\<rparr>"
    by (simp add: get_all_vehicle_data_def sheet example_group_id loop
          error_email_if_due_raises [OF due1])
  have body: "cycle_body example_library example_environ example_outage ?g
      = (Some (IOError ''smtp unreachable''), ?g)"
    by (simp add: cycle_body_def example_outage_def fetch)
  have c: "cycle example_library example_environ example_outage ?g
     = Terminated (IOError ''smtp unreachable'') ?g"
    by (simp add: cycle_def body)
       (simp add: example_outage_def error_email_if_due_raises [OF due2])
  show ?thesis by (simp add: c)
qed

subsection \<open>Which vehicles have a recorded position\<close>

text \<open>
  \<open>get_all_vehicle_data\<close> records an on-trip flag only for the vehicle ids of the
  responses it processes: a vehicle id that no response names has after the call the
  entry of \<open>vehicle_onTrip\<close> it had before, none when it never had one.
\<close>

lemma store_locations_unseen:
  "Some vehicle_id \<notin> vj_id ` set vehicles \<Longrightarrow>
   vehicle_onTrip (snd (store_locations vehicles g)) vehicle_id = vehicle_onTrip g vehicle_id"
  by (induction vehicles arbitrary: g) (auto simp: Let_def split: option.splits)

lemma fetch_loop_unseen:
  assumes "\<And>k vehicles. api k = Locations vehicles \<Longrightarrow> Some vehicle_id \<notin> vj_id ` set vehicles"
  shows "vehicle_onTrip (snd (snd (fetch_loop r k api g))) vehicle_id
           = vehicle_onTrip g vehicle_id"
proof (induction r arbitrary: k g)
  case 0
  then show ?case by simp
next
  case (Suc r)
  show ?case
  proof (cases "api k")
    case (RequestFails e)
    then show ?thesis using Suc.IH by simp
  next
    case (Locations vehicles)
    obtain x g1 where st: "store_locations vehicles g = (x, g1)"
      by (cases "store_locations vehicles g") auto
    have l: "vehicle_onTrip g1 vehicle_id = vehicle_onTrip g vehicle_id"
      using store_locations_unseen [OF assms [OF Locations], of g] by (simp add: st)
    show ?thesis
      by (cases x) (simp_all add: Locations st l Suc.IH)
  qed
qed

lemma add_entries_onTrip:
  "vehicle_onTrip (snd (add_entries entries g)) = vehicle_onTrip g"
  by (induction entries arbitrary: g) (auto simp: Let_def split: option.splits)

lemma get_vehicle_details_onTrip:
  "vehicle_onTrip (snd (get_vehicle_details url g)) = vehicle_onTrip g"
proof -
  have "\<And>entries. vehicle_onTrip (snd (add_entries entries (g\<lparr>vehicle_ids := {}\<rparr>)))
      = vehicle_onTrip g"
    by (simp add: add_entries_onTrip)
  then show ?thesis
    by (auto simp: get_vehicle_details_def Let_def
          split: sheet_response.splits sheet_body.splits option.splits prod.splits)
       (metis snd_conv)+
qed

lemma get_all_vehicle_data_unseen:
  assumes "\<And>k vehicles. api k = Locations vehicles \<Longrightarrow> Some vehicle_id \<notin> vj_id ` set vehicles"
  shows "vehicle_onTrip (state (get_all_vehicle_data lib env sheet api t server g)) vehicle_id
           = vehicle_onTrip g vehicle_id"
proof (cases "environ_int lib ''SAMSARA_SFMTA_GROUP_ID'' (SAMSARA_SFMTA_GROUP_ID env)")
  case (Inl e)
  then show ?thesis by (simp add: get_all_vehicle_data_def get_vehicle_details_onTrip)
next
  case (Inr group_id)
  let ?g1 = "snd (get_vehicle_details sheet g)"
  obtain ok k g2 where f: "fetch_loop MAX_RETRIES 0 api ?g1 = (ok, k, g2)"
    by (cases "fetch_loop MAX_RETRIES 0 api ?g1") auto
  have "vehicle_onTrip g2 vehicle_id = vehicle_onTrip ?g1 vehicle_id"
    using fetch_loop_unseen [of api vehicle_id MAX_RETRIES 0 ?g1] assms by (simp add: f)
  then have g2: "vehicle_onTrip g2 vehicle_id = vehicle_onTrip g vehicle_id"
    by (simp add: get_vehicle_details_onTrip)
  obtain l where l: "snd (error_email_if_due t server
      (''There was an error pulling data from Samsara API - please check logs''
         @ [CHR 0x0A, CHR 0x0A]) g2) = g2\<lparr>LAST_ERROR_EMAIL_TIME := l\<rparr>"
    using error_email_if_due_state by blast
  show ?thesis
  proof (cases ok)
    case True
    then show ?thesis by (simp add: get_all_vehicle_data_def Inr f g2)
  next
    case False
    obtain x g3 where e: "error_email_if_due t server
      (''There was an error pulling data from Samsara API - please check logs''
         @ [CHR 0x0A, CHR 0x0A]) g2 = (x, g3)"
      by (cases "error_email_if_due t server
      (''There was an error pulling data from Samsara API - please check logs''
         @ [CHR 0x0A, CHR 0x0A]) g2") auto
    then have "g3 = g2\<lparr>LAST_ERROR_EMAIL_TIME := l\<rparr>" using l by simp
    then have "vehicle_onTrip g3 vehicle_id = vehicle_onTrip g vehicle_id" using g2 by simp
    then show ?thesis
      using False e by (cases x) (simp_all add: get_all_vehicle_data_def Inr f)
  qed
qed

end
